theory Spec2Isabelle
  imports Complex_Main "HOL-Library.Sublist" "HOL-Library.AList" "HOL-Library.Char_ord"
    "HOL-Library.List_Lexorder" "HOL-Library.Product_Lexorder" "HOL-Library.Multiset"
begin

section \<open>Python values\<close>

text \<open>
  The script \<^verbatim>\<open>employment_establishment_data_collection.py\<close> downloads one table per
  year, keeps the establishment count of every municipality, and writes a wide JSON table.
  Everything it receives is parsed JSON, so the values it handles are modelled by the
  datatype \<open>json\<close>. A character is one Python character with a code point below 256
  (the municipality names are Spanish, inside Latin-1), so that the order on strings is
  Python's order and \<open>length\<close> counts characters.

  A Python float is modelled by \<open>py_float\<close>: an exact rational, or one of the three
  special values of IEEE arithmetic. The rounding and the overflow of 64-bit floats and
  integers are not modelled: numbers are exact.
\<close>

datatype py_float = NaN | PInf | NInf | Fin rat

datatype json =
    JNull
  | JBool bool
  | JInt int
  | JFloat py_float
  | JStr string
  | JArr "json list"
  | JObj "(string \<times> json) list"

datatype py_error =
    RuntimeError | KeyError | ValueError | TypeError | IndexError | AttributeError
  | OverflowError

section \<open>Value coercion: \<open>safe_int\<close>\<close>

text \<open>
  Python's \<open>int(s)\<close> on a string: surrounding whitespace is dropped, one sign is
  allowed, then decimal digits, where single underscores may stand between two digits.
  (CPython from 3.11 on also refuses strings of more than 4300 digits; that limit is
  left out.)
\<close>

definition is_space :: "char \<Rightarrow> bool" where
  "is_space c = (c \<in> set [CHR 0x09, CHR 0x0A, CHR 0x0B, CHR 0x0C, CHR 0x0D,
     CHR 0x1C, CHR 0x1D, CHR 0x1E, CHR 0x1F, CHR 0x20, CHR 0x85, CHR 0xA0])"

definition is_digit :: "char \<Rightarrow> bool" where
  "is_digit c = (c \<in> set ''0123456789'')"

definition digit_val :: "char \<Rightarrow> int" where
  "digit_val c = int (of_char c) - 48"

definition strip :: "string \<Rightarrow> string" where
  "strip s = rev (dropWhile is_space (rev (dropWhile is_space s)))"

fun int_digits :: "int \<Rightarrow> string \<Rightarrow> int option" where
  "int_digits acc [] = Some acc"
| "int_digits acc [c] = (if is_digit c then Some (acc * 10 + digit_val c) else None)"
| "int_digits acc (c # d # ds) =
     (if is_digit c then int_digits (acc * 10 + digit_val c) (d # ds)
      else if c = CHR ''_'' \<and> is_digit d then int_digits (acc * 10 + digit_val d) ds
      else None)"

definition unsigned_of_str :: "string \<Rightarrow> int option" where
  "unsigned_of_str s =
     (case s of [] \<Rightarrow> None
      | c # cs \<Rightarrow> if is_digit c then int_digits (digit_val c) cs else None)"

definition int_of_str :: "string \<Rightarrow> py_error + int" where
  "int_of_str s =
     (let t = strip s;
          r = (case t of
                 [] \<Rightarrow> None
               | c # cs \<Rightarrow>
                   if c = CHR ''-'' then map_option uminus (unsigned_of_str cs)
                   else if c = CHR ''+'' then unsigned_of_str cs
                   else unsigned_of_str t)
      in case r of None \<Rightarrow> Inl ValueError | Some n \<Rightarrow> Inr n)"

text \<open>
  \<open>int(val)\<close> on any parsed JSON value: a float is truncated towards zero, and
  \<open>int\<close> raises on NaN (ValueError), on an infinity (OverflowError) and on
  \<open>None\<close>, a list or a dict (TypeError).
\<close>

fun py_int :: "json \<Rightarrow> py_error + int" where
  "py_int (JStr s) = int_of_str s"
| "py_int (JInt n) = Inr n"
| "py_int (JBool b) = Inr (if b then 1 else 0)"
| "py_int (JFloat (Fin r)) = Inr (if 0 \<le> r then \<lfloor>r\<rfloor> else \<lceil>r\<rceil>)"
| "py_int (JFloat NaN) = Inl ValueError"
| "py_int (JFloat PInf) = Inl OverflowError"
| "py_int (JFloat NInf) = Inl OverflowError"
| "py_int JNull = Inl TypeError"
| "py_int (JArr xs) = Inl TypeError"
| "py_int (JObj kvs) = Inl TypeError"

text \<open>
  \<^verbatim>\<open>
  def safe_int(val):
      try:
          if val in ('N', '0'):
              return 0
          return int(val)
      except Exception:
          return None
  \<close>
  Only a string equals \<open>'N'\<close> or \<open>'0'\<close>. Every error of \<open>int\<close> is an
  \<open>Exception\<close>, so the handler catches it: the result \<open>None\<close> of the model is
  Python's \<open>None\<close>.
\<close>

definition safe_int :: "json \<Rightarrow> int option" where
  "safe_int val =
     (if val = JStr ''N'' \<or> val = JStr ''0'' then Some 0
      else case py_int val of Inr n \<Rightarrow> Some n | Inl e \<Rightarrow> None)"

section \<open>The variable name of the industry code\<close>

definition get_naics_variable_name :: "int \<Rightarrow> string" where
  "get_naics_variable_name y =
     (if y \<ge> 2017 then ''NAICS2017''
      else if y \<ge> 2012 then ''NAICS2012''
      else if y \<ge> 2007 then ''NAICS2007''
      else ''NAICS2002'')"

section \<open>The fetch loop\<close>

text \<open>
  The run depends on three things outside the script: the current year, the date string
  that goes into the metadata, and what the service answers. \<open>http_get env y v\<close> is the
  answer to the request for year \<open>y\<close> with the variable name \<open>v\<close> in the query:
  the request raises (no connection, timeout), or there is a status code and a body,
  where the body \<open>None\<close> means that \<open>r.json()\<close> raises.
\<close>

datatype http_result = ConnectionFailed | Response int "json option"

record env =
  current_year :: int
  today :: string
  http_get :: "int \<Rightarrow> string \<Rightarrow> http_result"

record yearly_record =
  year :: int
  Municipio :: string
  Establishments :: "int option"

definition START_YEAR :: int where
  "START_YEAR = 2010"

text \<open>
  Iterating a parsed value, as \<open>header, *rows = data\<close> and \<open>enumerate(header)\<close> do:
  a list gives its elements, a string its characters, a dict its keys (a \<open>JObj\<close> holds
  the keys of the parsed dict in order); anything else is not iterable.
\<close>

fun py_iter :: "json \<Rightarrow> py_error + json list" where
  "py_iter (JArr xs) = Inr xs"
| "py_iter (JStr s) = Inr (map (\<lambda>c. JStr [c]) s)"
| "py_iter (JObj kvs) = Inr (map (\<lambda>kv. JStr (fst kv)) kvs)"
| "py_iter v = Inl TypeError"

fun hashable :: "json \<Rightarrow> bool" where
  "hashable (JArr xs) = False"
| "hashable (JObj kvs) = False"
| "hashable v = True"

text \<open>
  \<open>idx = {k: i for i, k in enumerate(header)}\<close>: a later position of the same key
  replaces an earlier one. Only the string keys \<open>"NAME"\<close> and \<open>"ESTAB"\<close> are
  looked up, and a string equals no value of another type.
\<close>

definition build_idx :: "json \<Rightarrow> py_error + (json \<rightharpoonup> nat)" where
  "build_idx header =
     (case py_iter header of
        Inl e \<Rightarrow> Inl e
      | Inr ks \<Rightarrow>
          if list_all hashable ks then Inr (map_of (rev (zip ks [0..<length ks])))
          else Inl TypeError)"

text \<open>\<open>row[i]\<close> for an index \<open>i\<close> that is not negative.\<close>

fun py_getitem :: "json \<Rightarrow> nat \<Rightarrow> py_error + json" where
  "py_getitem (JArr xs) i = (if i < length xs then Inr (xs ! i) else Inl IndexError)"
| "py_getitem (JStr s) i = (if i < length s then Inr (JStr [s ! i]) else Inl IndexError)"
| "py_getitem (JObj kvs) i = Inl KeyError"
| "py_getitem v i = Inl TypeError"

text \<open>
  \<open>s.replace(pat, "")\<close>: the occurrences of \<open>pat\<close> are removed from left to right,
  without overlap. Only a string has the method.
\<close>

function remove_all :: "string \<Rightarrow> string \<Rightarrow> string" where
  "remove_all pat [] = []"
| "remove_all pat (c # cs) =
     (if pat \<noteq> [] \<and> prefix pat (c # cs) then remove_all pat (drop (length pat) (c # cs))
      else c # remove_all pat cs)"
  by pat_completeness auto
termination
  by (relation "measure (\<lambda>(pat, s). length s)") auto

fun py_replace :: "json \<Rightarrow> string \<Rightarrow> py_error + string" where
  "py_replace (JStr s) pat = Inr (remove_all pat s)"
| "py_replace v pat = Inl AttributeError"

text \<open>
  One pass of the inner loop over a row: the row is skipped (\<open>Inr None\<close>) when its name
  is the territory's, it gives a record, or it raises.
\<close>

definition parse_row :: "(json \<rightharpoonup> nat) \<Rightarrow> int \<Rightarrow> json \<Rightarrow> py_error + yearly_record option" where
  "parse_row idx y row =
     (case idx (JStr ''NAME'') of
        None \<Rightarrow> Inl KeyError
      | Some i \<Rightarrow>
          (case py_getitem row i of
             Inl e \<Rightarrow> Inl e
           | Inr nm \<Rightarrow>
               (case py_replace nm '' Municipio, Puerto Rico'' of
                  Inl e \<Rightarrow> Inl e
                | Inr municipio \<Rightarrow>
                    if municipio = ''Puerto Rico'' then Inr None
                    else
                      (case idx (JStr ''ESTAB'') of
                         None \<Rightarrow> Inl KeyError
                       | Some j \<Rightarrow>
                           (case py_getitem row j of
                              Inl e \<Rightarrow> Inl e
                            | Inr v \<Rightarrow>
                                Inr (Some \<lparr>year = y, Municipio = municipio,
                                           Establishments = safe_int v\<rparr>))))))"

text \<open>
  The inner loop appends to \<open>records\<close>. A row that raises ends the loop of this year
  (the handler of the year catches it); the records appended before it stay.
\<close>

fun process_rows ::
  "(json \<rightharpoonup> nat) \<Rightarrow> int \<Rightarrow> json list \<Rightarrow> yearly_record list \<Rightarrow> yearly_record list \<times> py_error option"
where
  "process_rows idx y [] records = (records, None)"
| "process_rows idx y (row # rows) records =
     (case parse_row idx y row of
        Inl e \<Rightarrow> (records, Some e)
      | Inr None \<Rightarrow> process_rows idx y rows records
      | Inr (Some r) \<Rightarrow> process_rows idx y rows (records @ [r]))"

text \<open>
  One pass of the loop over the years, on the state \<open>(records, successful_years)\<close>.
  Every branch that gives the state back unchanged is a \<open>continue\<close>: the request
  raised, the status is not 200, the body is not JSON, the body cannot be split into a
  header and rows, the index of the header cannot be built, or there are no rows.
\<close>

definition fetch_year ::
  "env \<Rightarrow> yearly_record list \<times> int list \<Rightarrow> int \<Rightarrow> yearly_record list \<times> int list"
where
  "fetch_year env st y =
     (case http_get env y (get_naics_variable_name y) of
        ConnectionFailed \<Rightarrow> st
      | Response status body \<Rightarrow>
          if status \<noteq> 200 then st
          else
            (case body of
               None \<Rightarrow> st
             | Some data \<Rightarrow>
                 (case py_iter data of
                    Inl e \<Rightarrow> st
                  | Inr [] \<Rightarrow> st
                  | Inr (header # rows) \<Rightarrow>
                      (case build_idx header of
                         Inl e \<Rightarrow> st
                       | Inr idx \<Rightarrow>
                           if rows = [] then st
                           else (fst (process_rows idx y rows (fst st)), snd st @ [y])))))"

definition fetch_loop :: "env \<Rightarrow> int list \<Rightarrow> yearly_record list \<times> int list" where
  "fetch_loop env years = foldl (fetch_year env) ([], []) years"

text \<open>
  A year returned data when the request gave status 200 and a body that splits into a
  header, of which the index can be built, and at least one row.
\<close>

definition returned_data :: "env \<Rightarrow> int \<Rightarrow> bool" where
  "returned_data env y =
     (case http_get env y (get_naics_variable_name y) of
        ConnectionFailed \<Rightarrow> False
      | Response status body \<Rightarrow>
          status = 200 \<and>
          (case body of
             None \<Rightarrow> False
           | Some data \<Rightarrow>
               (case py_iter data of
                  Inl e \<Rightarrow> False
                | Inr [] \<Rightarrow> False
                | Inr (header # rows) \<Rightarrow>
                    rows \<noteq> [] \<and> (case build_idx header of Inl e \<Rightarrow> False | Inr idx \<Rightarrow> True))))"

section \<open>Errors in sequence\<close>

definition bind_err :: "'e + 'a \<Rightarrow> ('a \<Rightarrow> 'e + 'b) \<Rightarrow> 'e + 'b" where
  "bind_err m f = (case m of Inl e \<Rightarrow> Inl e | Inr x \<Rightarrow> f x)"

text \<open>
  \<open>successful_years[0]\<close>, \<open>successful_years[-2]\<close> and \<open>successful_years[-1]\<close>:
  an index from the front is a position, an index \<open>- k\<close> is the position \<open>k\<close> from the
  end, and a position outside the list raises IndexError.
\<close>

definition py_nth :: "'a list \<Rightarrow> int \<Rightarrow> py_error + 'a" where
  "py_nth xs i =
     (if 0 \<le> i then
        (if nat i < length xs then Inr (xs ! nat i) else Inl IndexError)
      else
        (if nat (- i) \<le> length xs then Inr (xs ! (length xs - nat (- i)))
         else Inl IndexError))"

section \<open>The long table and the total of the island\<close>

text \<open>
  The long table has one line per record. A count that is \<open>None\<close> is the missing
  value of pandas. \<open>pd.DataFrame([])\<close> has no columns, so sorting it by
  \<open>"Municipio"\<close> raises KeyError; otherwise the lines are sorted by name and year
  (a stable sort) and the lines with a missing count are dropped.
\<close>

definition build_df :: "yearly_record list \<Rightarrow> py_error + yearly_record list" where
  "build_df records =
     (if records = [] then Inl KeyError
      else Inr (filter (\<lambda>r. Establishments r \<noteq> None)
                  (sort_key (\<lambda>r. (Municipio r, year r)) records)))"

definition count_of :: "yearly_record \<Rightarrow> int" where
  "count_of r = (case Establishments r of None \<Rightarrow> 0 | Some n \<Rightarrow> n)"

text \<open>
  \<open>df.groupby("year", as_index=False)["Establishments"].sum().assign(Municipio="Puerto Rico")\<close>:
  one line per year of the table, in ascending order of the years, with the sum of the
  counts of that year.
\<close>

definition island :: "yearly_record list \<Rightarrow> yearly_record list" where
  "island df =
     map (\<lambda>y. \<lparr>year = y, Municipio = ''Puerto Rico'',
               Establishments = Some (sum_list (map count_of (filter (\<lambda>r. year r = y) df)))\<rparr>)
       (sort (remdups (map year df)))"

definition add_island :: "yearly_record list \<Rightarrow> py_error + yearly_record list" where
  "add_island records = bind_err (build_df records) (\<lambda>df. Inr (df @ island df))"

section \<open>The wide table\<close>

text \<open>
  A table is its number of rows and its columns in order, each a label and a series.
  A series holds strings (the names), numbers (counts and changes, where NaN is the
  missing value), or is the constant \<open>None\<close> of a placeholder column.
\<close>

datatype label = LInt int | LStr string

datatype series = StrCol "string list" | NumCol "py_float list" | NoneCol

record frame =
  nrows :: nat
  columns :: "(label \<times> series) list"

definition cell :: "yearly_record list \<Rightarrow> string \<Rightarrow> int \<Rightarrow> py_float" where
  "cell df m y =
     (case find (\<lambda>r. Municipio r = m \<and> year r = y) df of
        None \<Rightarrow> NaN
      | Some r \<Rightarrow> (case Establishments r of None \<Rightarrow> NaN | Some n \<Rightarrow> Fin (of_int n)))"

text \<open>
  \<open>df.pivot(index="Municipio", columns="year", values="Establishments").reset_index()\<close>:
  two lines with the same name and year raise ValueError; otherwise there is one row per
  name and one column per year, both in ascending order, and a pair of name and year
  with no line is NaN.
\<close>

definition pivot :: "yearly_record list \<Rightarrow> py_error + frame" where
  "pivot df =
     (if \<not> distinct (map (\<lambda>r. (Municipio r, year r)) df) then Inl ValueError
      else
        let index = sort (remdups (map Municipio df));
            ys = sort (remdups (map year df))
        in Inr \<lparr>nrows = length index,
                columns = (LStr ''Municipio'', StrCol index)
                  # map (\<lambda>y. (LInt y, NumCol (map (\<lambda>m. cell df m y) index))) ys\<rparr>)"

text \<open>\<open>str(n)\<close> of an integer.\<close>

definition digit_char :: "nat \<Rightarrow> char" where
  "digit_char d = ''0123456789'' ! d"

fun str_nat :: "nat \<Rightarrow> string" where
  "str_nat n = (if n < 10 then [digit_char n] else str_nat (n div 10) @ [digit_char (n mod 10)])"

definition str_int :: "int \<Rightarrow> string" where
  "str_int i = (if i < 0 then CHR ''-'' # str_nat (nat (- i)) else str_nat (nat i))"

text \<open>\<open>pivot.rename(columns={y: str(y) for y in successful_years})\<close>\<close>

definition rename_label :: "int list \<Rightarrow> label \<Rightarrow> label" where
  "rename_label successful_years l =
     (case l of
        LInt y \<Rightarrow> if y \<in> set successful_years then LStr (str_int y) else LInt y
      | LStr s \<Rightarrow> LStr s)"

definition rename_columns :: "int list \<Rightarrow> frame \<Rightarrow> frame" where
  "rename_columns successful_years pv =
     pv\<lparr>columns := map (\<lambda>(l, s). (rename_label successful_years l, s)) (columns pv)\<rparr>"

text \<open>\<open>pivot[k]\<close> raises KeyError without the column; \<open>pivot[k] = s\<close> replaces the
  column in its place or appends it.\<close>

definition get_col :: "frame \<Rightarrow> label \<Rightarrow> py_error + series" where
  "get_col pv k = (case map_of (columns pv) k of None \<Rightarrow> Inl KeyError | Some s \<Rightarrow> Inr s)"

definition set_col :: "frame \<Rightarrow> label \<Rightarrow> series \<Rightarrow> frame" where
  "set_col pv k s = pv\<lparr>columns := AList.update k s (columns pv)\<rparr>"

text \<open>
  Arithmetic of floats, on exact numbers. A finite zero that divides is the zero of a
  count, which is positive zero; the sign of a zero result is not kept.
\<close>

fun fl_sub :: "py_float \<Rightarrow> py_float \<Rightarrow> py_float" where
  "fl_sub NaN b = NaN"
| "fl_sub a NaN = NaN"
| "fl_sub (Fin a) (Fin b) = Fin (a - b)"
| "fl_sub (Fin a) PInf = NInf"
| "fl_sub (Fin a) NInf = PInf"
| "fl_sub PInf PInf = NaN"
| "fl_sub PInf b = PInf"
| "fl_sub NInf NInf = NaN"
| "fl_sub NInf b = NInf"

fun fl_div :: "py_float \<Rightarrow> py_float \<Rightarrow> py_float" where
  "fl_div NaN b = NaN"
| "fl_div a NaN = NaN"
| "fl_div (Fin a) (Fin b) =
     (if b = 0 then (if a = 0 then NaN else if 0 < a then PInf else NInf) else Fin (a / b))"
| "fl_div (Fin a) b = Fin 0"
| "fl_div PInf (Fin b) = (if 0 \<le> b then PInf else NInf)"
| "fl_div NInf (Fin b) = (if 0 \<le> b then NInf else PInf)"
| "fl_div a b = NaN"

fun fl_mul :: "py_float \<Rightarrow> py_float \<Rightarrow> py_float" where
  "fl_mul NaN b = NaN"
| "fl_mul a NaN = NaN"
| "fl_mul (Fin a) (Fin b) = Fin (a * b)"
| "fl_mul (Fin a) PInf = (if a = 0 then NaN else if 0 < a then PInf else NInf)"
| "fl_mul (Fin a) NInf = (if a = 0 then NaN else if 0 < a then NInf else PInf)"
| "fl_mul PInf (Fin b) = (if b = 0 then NaN else if 0 < b then PInf else NInf)"
| "fl_mul NInf (Fin b) = (if b = 0 then NaN else if 0 < b then NInf else PInf)"
| "fl_mul PInf PInf = PInf"
| "fl_mul NInf NInf = PInf"
| "fl_mul a b = NInf"

text \<open>
  The operations on whole columns work row by row. Subtracting or dividing names, or a
  placeholder, raises TypeError; a name times 100 is the name repeated.
\<close>

fun series_binop ::
  "(py_float \<Rightarrow> py_float \<Rightarrow> py_float) \<Rightarrow> series \<Rightarrow> series \<Rightarrow> py_error + series"
where
  "series_binop f (NumCol a) (NumCol b) = Inr (NumCol (map2 f a b))"
| "series_binop f a b = Inl TypeError"

fun series_times_100 :: "series \<Rightarrow> py_error + series" where
  "series_times_100 (NumCol a) = Inr (NumCol (map (\<lambda>x. fl_mul x (Fin 100)) a))"
| "series_times_100 (StrCol a) = Inr (StrCol (map (\<lambda>s. concat (replicate 100 s)) a))"
| "series_times_100 NoneCol = Inl TypeError"

text \<open>
  \<^verbatim>\<open>
  pivot[f"Change_{prev_str}_{last_str}"] = pivot[last_str] - pivot[prev_str]
  pivot[f"Pct_Change_{prev_str}_{last_str}"] = (pivot[f"Change_{prev_str}_{last_str}"] / pivot[prev_str]) * 100
  pivot[f"Cum_Change_{first_str}_{last_str}"] = pivot[last_str] - pivot[first_str]
  pivot[f"Cum_Pct_Change_{first_str}_{last_str}"] = (pivot[f"Cum_Change_{first_str}_{last_str}"] / pivot[first_str]) * 100
  \<close>
\<close>

definition change_key :: "string \<Rightarrow> string \<Rightarrow> string" where
  "change_key a b = ''Change_'' @ a @ ''_'' @ b"

definition pct_change_key :: "string \<Rightarrow> string \<Rightarrow> string" where
  "pct_change_key a b = ''Pct_Change_'' @ a @ ''_'' @ b"

definition cum_change_key :: "string \<Rightarrow> string \<Rightarrow> string" where
  "cum_change_key a b = ''Cum_Change_'' @ a @ ''_'' @ b"

definition cum_pct_change_key :: "string \<Rightarrow> string \<Rightarrow> string" where
  "cum_pct_change_key a b = ''Cum_Pct_Change_'' @ a @ ''_'' @ b"

definition add_change ::
  "string \<Rightarrow> string \<Rightarrow> string \<Rightarrow> string \<Rightarrow> frame \<Rightarrow> py_error + frame"
where
  "add_change ck pk from_str to_str pv =
     bind_err (get_col pv (LStr to_str)) (\<lambda>t.
     bind_err (get_col pv (LStr from_str)) (\<lambda>f.
     bind_err (series_binop fl_sub t f) (\<lambda>change.
     let pv1 = set_col pv (LStr ck) change in
     bind_err (get_col pv1 (LStr ck)) (\<lambda>c.
     bind_err (get_col pv1 (LStr from_str)) (\<lambda>f1.
     bind_err (series_binop fl_div c f1) (\<lambda>q.
     bind_err (series_times_100 q) (\<lambda>pct.
     Inr (set_col pv1 (LStr pk) pct))))))))"

definition add_changes :: "string \<Rightarrow> string \<Rightarrow> string \<Rightarrow> frame \<Rightarrow> py_error + frame" where
  "add_changes first_str prev_str last_str pv =
     bind_err (add_change (change_key prev_str last_str) (pct_change_key prev_str last_str)
                 prev_str last_str pv) (\<lambda>pv2.
     add_change (cum_change_key first_str last_str) (cum_pct_change_key first_str last_str)
       first_str last_str pv2)"

text \<open>The placeholder columns: \<open>RealIncome_<y>\<close> for every successful year, then
  the four \<open>Real_\<close> columns, all \<open>None\<close>.\<close>

definition real_keys :: "string \<Rightarrow> string \<Rightarrow> string \<Rightarrow> string list" where
  "real_keys first_str prev_str last_str =
     [''Real_Change_'' @ prev_str @ ''_'' @ last_str,
      ''Real_Pct_Change_'' @ prev_str @ ''_'' @ last_str,
      ''Real_Cum_Change_'' @ first_str @ ''_'' @ last_str,
      ''Real_Cum_Pct_Change_'' @ first_str @ ''_'' @ last_str]"

definition add_placeholders :: "int list \<Rightarrow> string \<Rightarrow> string \<Rightarrow> string \<Rightarrow> frame \<Rightarrow> frame" where
  "add_placeholders successful_years first_str prev_str last_str pv =
     foldl (\<lambda>p k. set_col p (LStr k) NoneCol)
       (foldl (\<lambda>p y. set_col p (LStr (''RealIncome_'' @ str_int y)) NoneCol) pv successful_years)
       (real_keys first_str prev_str last_str)"

text \<open>Section 4 of the script: pivot, rename, the changes and the placeholders.\<close>

definition widen :: "int list \<Rightarrow> yearly_record list \<Rightarrow> py_error + frame" where
  "widen successful_years df =
     bind_err (pivot df) (\<lambda>pv0.
     let pv = rename_columns successful_years pv0 in
     bind_err (py_nth successful_years 0) (\<lambda>first.
     bind_err (py_nth successful_years (- 2)) (\<lambda>prev.
     bind_err (py_nth successful_years (- 1)) (\<lambda>last.
     bind_err (add_changes (str_int first) (str_int prev) (str_int last) pv) (\<lambda>pv1.
     Inr (add_placeholders successful_years (str_int first) (str_int prev) (str_int last) pv1))))))"

section \<open>The output\<close>

datatype pyval = VStr string | VNum py_float | VNone

fun series_at :: "series \<Rightarrow> nat \<Rightarrow> pyval" where
  "series_at (StrCol xs) i = VStr (xs ! i)"
| "series_at (NumCol xs) i = VNum (xs ! i)"
| "series_at NoneCol i = VNone"

text \<open>\<open>pivot.to_dict(orient="records")\<close>: one dict per row, in the order of the rows.\<close>

definition to_dict :: "frame \<Rightarrow> (label \<times> pyval) list list" where
  "to_dict pv = map (\<lambda>i. map (\<lambda>(l, s). (l, series_at s i)) (columns pv)) [0..<nrows pv]"

record metadata =
  source :: string
  units :: string
  islandwide_aggregation :: bool
  data_years :: "string list"
  updated :: string
  "notes" :: string

datatype item = Row "(label \<times> pyval) list" | Metadata metadata

definition make_metadata :: "string \<Rightarrow> int list \<Rightarrow> metadata" where
  "make_metadata now successful_years =
     \<lparr>source = ''U.S. Census Bureau, County Business Patterns (CBP), NAICS 00 (All Industries)'',
      units = ''Number of Employer Establishments (as of March 12)'',
      islandwide_aggregation = True,
      data_years = map str_int successful_years,
      updated = now,
      notes = ''Establishment counts use year keys (e.g., '' @ [CHR 0x27] @ ''2023'' @ [CHR 0x27]
        @ '') to maintain structural parity with the income JSON. ''
        @ ''RealIncome_* and Real_* fields are null placeholders.''\<rparr>"

definition json_name :: "string \<Rightarrow> string" where
  "json_name last_str =
     ''municipios_cbp_establishments_'' @ str_int START_YEAR @ ''_'' @ last_str @ ''_wide.json''"

text \<open>
  What a run does: it raises, it leaves through \<open>sys.exit\<close> with a status, or it
  writes the list of items to the file of the given name.
\<close>

datatype outcome = Raised py_error | Exited int | Saved string "item list"

definition save :: "string \<Rightarrow> int list \<Rightarrow> frame \<Rightarrow> py_error + string \<times> item list" where
  "save now successful_years pv =
     bind_err (py_nth successful_years (- 1)) (\<lambda>last.
     Inr (json_name (str_int last),
          map Row (to_dict pv) @ [Metadata (make_metadata now successful_years)]))"

definition run :: "env \<Rightarrow> outcome" where
  "run env =
     (let years = [START_YEAR..current_year env - 2] in
      if length years < 2 then Raised RuntimeError
      else
        let (records, successful_years) = fetch_loop env years in
        if length successful_years < 2 then Exited 0
        else
          (case bind_err (add_island records) (\<lambda>df.
                bind_err (widen successful_years df) (\<lambda>pv.
                save (today env) successful_years pv)) of
             Inl e \<Rightarrow> Raised e
           | Inr (path, out) \<Rightarrow> Saved path out))"

section \<open>Sample runs\<close>

text \<open>
  Answers of the service for sample runs: \<open>api_table\<close> is a well-formed answer, with
  status 200, the header \<open>NAME, ESTAB, state, county\<close> and one row per pair of a name
  and a count. A year with no answer in the list gets status 404.
\<close>

definition api_table :: "(string \<times> string) list \<Rightarrow> http_result" where
  "api_table rows =
     Response 200 (Some (JArr (JArr [JStr ''NAME'', JStr ''ESTAB'', JStr ''state'', JStr ''county'']
       # map (\<lambda>(n, e). JArr [JStr n, JStr e, JStr ''72'', JStr ''001'']) rows)))"

definition service :: "(int \<times> http_result) list \<Rightarrow> int \<Rightarrow> string \<Rightarrow> http_result" where
  "service answers y v = (case map_of answers y of None \<Rightarrow> Response 404 None | Some r \<Rightarrow> r)"

text \<open>Three years with two municipalities and, in 2010, the row of the territory.\<close>

definition sample_env :: env where
  "sample_env =
     \<lparr>current_year = 2014, today = ''2014-05-01'',
      http_get = service
        [(2010, api_table [(''Adjuntas Municipio, Puerto Rico'', ''80''),
                           (''Yauco Municipio, Puerto Rico'', ''10''),
                           (''Puerto Rico'', ''90'')]),
         (2011, api_table [(''Adjuntas Municipio, Puerto Rico'', ''100''),
                           (''Yauco Municipio, Puerto Rico'', ''0'')]),
         (2012, api_table [(''Adjuntas Municipio, Puerto Rico'', ''150''),
                           (''Yauco Municipio, Puerto Rico'', ''5'')])]\<rparr>"

text \<open>The answer for 2011 has a header and no rows.\<close>

definition gap_env :: env where
  "gap_env =
     \<lparr>current_year = 2014, today = ''2014-05-01'',
      http_get = service
        [(2010, api_table [(''Adjuntas Municipio, Puerto Rico'', ''80'')]),
         (2011, api_table []),
         (2012, api_table [(''Adjuntas Municipio, Puerto Rico'', ''150'')])]\<rparr>"

text \<open>The answer for 2010 has two rows for Adjuntas, one with a count that is no number.\<close>

definition dup_env :: env where
  "dup_env =
     \<lparr>current_year = 2013, today = ''2013-05-01'',
      http_get = service
        [(2010, api_table [(''Adjuntas Municipio, Puerto Rico'', ''abc''),
                           (''Adjuntas Municipio, Puerto Rico'', ''5'')]),
         (2011, api_table [(''Adjuntas Municipio, Puerto Rico'', ''7'')])]\<rparr>"

text \<open>The answer for 2010 has two rows for Adjuntas, both with a count.\<close>

definition clash_env :: env where
  "clash_env =
     \<lparr>current_year = 2013, today = ''2013-05-01'',
      http_get = service
        [(2010, api_table [(''Adjuntas Municipio, Puerto Rico'', ''5''),
                           (''Adjuntas Municipio, Puerto Rico'', ''6'')]),
         (2011, api_table [(''Adjuntas Municipio, Puerto Rico'', ''7'')])]\<rparr>"

text \<open>Two years with one municipality.\<close>

definition lone_env :: env where
  "lone_env =
     \<lparr>current_year = 2013, today = ''2013-05-01'',
      http_get = service
        [(2010, api_table [(''Adjuntas Municipio, Puerto Rico'', ''5'')]),
         (2011, api_table [(''Adjuntas Municipio, Puerto Rico'', ''7'')])]\<rparr>"


text \<open>Reading a run: whether it wrote its file, and the cell of a row of the file.\<close>

fun saved :: "outcome \<Rightarrow> bool" where
  "saved (Saved path out) = True"
| "saved other = False"

fun items :: "outcome \<Rightarrow> item list" where
  "items (Saved path out) = out"
| "items other = []"

fun field :: "item \<Rightarrow> string \<Rightarrow> pyval option" where
  "field (Row r) k = map_of r (LStr k)"
| "field (Metadata m) k = None"

section \<open>The coercion and the selector\<close>

text \<open>
  C5. \<open>safe_int\<close> is a function that returns on every parsed value: \<open>"N"\<close> and
  \<open>"0"\<close> give 0, \<open>"1234"\<close> gives 1234, \<open>"abc"\<close> and \<open>None\<close> give null, and
  a value gives null exactly when it is neither token and \<open>int\<close> raises on it.
\<close>

theorem safe_int_total_spec:
  "safe_int (JStr ''N'') = Some 0 \<and> safe_int (JStr ''0'') = Some 0
   \<and> safe_int (JStr ''1234'') = Some 1234 \<and> safe_int (JStr ''abc'') = None
   \<and> safe_int JNull = None
   \<and> (safe_int v = None \<longleftrightarrow>
        v \<noteq> JStr ''N'' \<and> v \<noteq> JStr ''0'' \<and> (\<exists>e. py_int v = Inl e))
   \<and> (\<forall>n. py_int v = Inr n \<longrightarrow> v \<noteq> JStr ''N'' \<longrightarrow> safe_int v = Some n)"
proof -
  have a: "safe_int (JStr ''1234'') = Some 1234" by code_simp
  have b: "safe_int (JStr ''abc'') = None" by code_simp
  have c: "safe_int (JStr ''0'') = Some 0" "safe_int (JStr ''N'') = Some 0" "safe_int JNull = None"
    by (simp_all add: safe_int_def)
  have z: "py_int (JStr ''0'') = Inr 0" by code_simp
  have d: "safe_int v = None \<longleftrightarrow>
        v \<noteq> JStr ''N'' \<and> v \<noteq> JStr ''0'' \<and> (\<exists>e. py_int v = Inl e)"
    by (auto simp: safe_int_def split: sum.splits)
  have e: "\<forall>n. py_int v = Inr n \<longrightarrow> v \<noteq> JStr ''N'' \<longrightarrow> safe_int v = Some n"
    using z by (auto simp: safe_int_def)
  from a b c d e show ?thesis by blast
qed

theorem safe_int_total_spec_witness:
  "py_int (JStr '' -1_000 '') = Inr (- 1000) \<and> safe_int (JStr '' -1_000 '') = Some (- 1000)
   \<and> py_int (JStr ''1__0'') = Inl ValueError \<and> safe_int (JStr ''1__0'') = None"
proof -
  have a: "py_int (JStr '' -1_000 '') = Inr (- 1000)" by code_simp
  have b: "py_int (JStr ''1__0'') = Inl ValueError" by code_simp
  have n: "JStr '' -1_000 '' \<noteq> JStr ''N''" "JStr ''1__0'' \<noteq> JStr ''N''" "JStr ''1__0'' \<noteq> JStr ''0''"
    by simp_all
  from safe_int_total_spec [of "JStr '' -1_000 ''"] a n
  have c: "safe_int (JStr '' -1_000 '') = Some (- 1000)" by blast
  from safe_int_total_spec [of "JStr ''1__0''"] b n
  have d: "safe_int (JStr ''1__0'') = None" by blast
  from a b c d show ?thesis by blast
qed

text \<open>
  C8. The selector has the inclusive lower boundaries 2017, 2012 and 2007: a year from
  2017 on gives the fourth name, 2012 to 2016 the third, 2007 to 2011 the second, and a
  year before 2007 the first; so 2020, 2015, 2010 and 2005 give the four names in turn.
\<close>

theorem get_naics_variable_name_eras:
  "(2017 \<le> y \<longrightarrow> get_naics_variable_name y = ''NAICS2017'')
   \<and> (2012 \<le> y \<and> y \<le> 2016 \<longrightarrow> get_naics_variable_name y = ''NAICS2012'')
   \<and> (2007 \<le> y \<and> y \<le> 2011 \<longrightarrow> get_naics_variable_name y = ''NAICS2007'')
   \<and> (y < 2007 \<longrightarrow> get_naics_variable_name y = ''NAICS2002'')
   \<and> get_naics_variable_name 2020 = ''NAICS2017''
   \<and> get_naics_variable_name 2015 = ''NAICS2012''
   \<and> get_naics_variable_name 2010 = ''NAICS2007''
   \<and> get_naics_variable_name 2005 = ''NAICS2002''"
  by (simp add: get_naics_variable_name_def)

theorem get_naics_variable_name_eras_witness:
  "get_naics_variable_name 2017 = ''NAICS2017'' \<and> get_naics_variable_name 2016 = ''NAICS2012''
   \<and> get_naics_variable_name 2012 = ''NAICS2012'' \<and> get_naics_variable_name 2011 = ''NAICS2007''
   \<and> get_naics_variable_name 2007 = ''NAICS2007'' \<and> get_naics_variable_name 2006 = ''NAICS2002''"
  using get_naics_variable_name_eras [of 2017] get_naics_variable_name_eras [of 2016]
    get_naics_variable_name_eras [of 2012] get_naics_variable_name_eras [of 2011]
    get_naics_variable_name_eras [of 2007] get_naics_variable_name_eras [of 2006]
  by simp

section \<open>Facts about the fetch loop\<close>

lemma bind_err_Inr: "bind_err m f = Inr y \<longleftrightarrow> (\<exists>x. m = Inr x \<and> f x = Inr y)"
  by (cases m) (simp_all add: bind_err_def)

lemma bind_err_Inl: "bind_err m f = Inl e \<longleftrightarrow> m = Inl e \<or> (\<exists>x. m = Inr x \<and> f x = Inl e)"
  by (cases m) (simp_all add: bind_err_def)

lemma process_rows_appends:
  "\<exists>new. fst (process_rows idx y rows rs) = rs @ new
     \<and> (\<forall>r\<in>set new. year r = y \<and> Municipio r \<noteq> ''Puerto Rico'')"
proof (induction rows arbitrary: rs)
  case Nil
  then show ?case by simp
next
  case (Cons row rows)
  show ?case
  proof (cases "parse_row idx y row")
    case (Inl e)
    then show ?thesis by simp
  next
    case (Inr ro)
    show ?thesis
    proof (cases ro)
      case None
      with Inr Cons.IH [of rs] show ?thesis by simp
    next
      case (Some r)
      with Inr have r: "year r = y \<and> Municipio r \<noteq> ''Puerto Rico''"
        by (auto simp: parse_row_def split: option.splits sum.splits if_splits)
      from Cons.IH [of "rs @ [r]"] obtain new where
        new: "fst (process_rows idx y rows (rs @ [r])) = (rs @ [r]) @ new"
          "\<forall>r\<in>set new. year r = y \<and> Municipio r \<noteq> ''Puerto Rico''"
        by blast
      have "fst (process_rows idx y (row # rows) rs) = rs @ (r # new)"
        using Inr Some new(1) by simp
      moreover have "\<forall>r\<in>set (r # new). year r = y \<and> Municipio r \<noteq> ''Puerto Rico''"
        using r new(2) by simp
      ultimately show ?thesis by blast
    qed
  qed
qed

lemma fetch_year_successful:
  "snd (fetch_year env st y) = snd st @ (if returned_data env y then [y] else [])"
  by (simp add: fetch_year_def returned_data_def split: http_result.splits option.splits sum.splits list.splits)

lemma fetch_year_records:
  "\<exists>new. fst (fetch_year env st y) = fst st @ new
     \<and> (\<forall>r\<in>set new. year r = y \<and> Municipio r \<noteq> ''Puerto Rico'')
     \<and> (new \<noteq> [] \<longrightarrow> returned_data env y)"
proof (cases "returned_data env y")
  case False
  then have "fetch_year env st y = st"
    by (auto simp: fetch_year_def returned_data_def split: http_result.splits option.splits sum.splits list.splits)
  then show ?thesis by simp
next
  case True
  then obtain data header rows idx where
    h: "http_get env y (get_naics_variable_name y) = Response 200 (Some data)"
       "py_iter data = Inr (header # rows)" "rows \<noteq> []" "build_idx header = Inr idx"
    by (auto simp: returned_data_def split: http_result.splits option.splits sum.splits list.splits)
  then have "fst (fetch_year env st y) = fst (process_rows idx y rows (fst st))"
    by (simp add: fetch_year_def)
  with process_rows_appends [of idx y rows "fst st"] True show ?thesis by auto
qed

lemma foldl_fetch_successful:
  "snd (foldl (fetch_year env) st ys) = snd st @ filter (returned_data env) ys"
  by (induction ys arbitrary: st) (simp_all add: fetch_year_successful)

lemma foldl_fetch_records:
  "\<exists>new. fst (foldl (fetch_year env) st ys) = fst st @ new
     \<and> (\<forall>r\<in>set new. Municipio r \<noteq> ''Puerto Rico'' \<and> year r \<in> set (filter (returned_data env) ys))"
proof (induction ys arbitrary: st)
  case Nil
  then show ?case by simp
next
  case (Cons y ys)
  obtain n1 where n1: "fst (fetch_year env st y) = fst st @ n1"
    "\<forall>r\<in>set n1. year r = y \<and> Municipio r \<noteq> ''Puerto Rico''" "n1 \<noteq> [] \<longrightarrow> returned_data env y"
    using fetch_year_records [of env st y] by blast
  obtain n2 where n2: "fst (foldl (fetch_year env) (fetch_year env st y) ys) = fst (fetch_year env st y) @ n2"
    "\<forall>r\<in>set n2. Municipio r \<noteq> ''Puerto Rico'' \<and> year r \<in> set (filter (returned_data env) ys)"
    using Cons.IH [of "fetch_year env st y"] by blast
  have "fst (foldl (fetch_year env) st (y # ys)) = fst st @ (n1 @ n2)"
    using n1(1) n2(1) by simp
  moreover have "\<forall>r\<in>set (n1 @ n2). Municipio r \<noteq> ''Puerto Rico'' \<and> year r \<in> set (filter (returned_data env) (y # ys))"
    using n1(2,3) n2(2) by auto
  ultimately show ?case by blast
qed

lemma fetch_loop_successful: "snd (fetch_loop env ys) = filter (returned_data env) ys"
  by (simp add: fetch_loop_def foldl_fetch_successful)

lemma fetch_loop_records:
  "r \<in> set (fst (fetch_loop env ys)) \<Longrightarrow>
     Municipio r \<noteq> ''Puerto Rico'' \<and> year r \<in> set (snd (fetch_loop env ys))"
  using foldl_fetch_records [of env "([], [])" ys] by (auto simp: fetch_loop_def foldl_fetch_successful)

section \<open>Evaluating the sample runs\<close>

lemma run_cases:
  "run env =
     (if length [START_YEAR..current_year env - 2] < 2 then Raised RuntimeError
      else if length (snd (fetch_loop env [START_YEAR..current_year env - 2])) < 2 then Exited 0
      else (case bind_err (add_island (fst (fetch_loop env [START_YEAR..current_year env - 2]))) (\<lambda>df.
                bind_err (widen (snd (fetch_loop env [START_YEAR..current_year env - 2])) df) (\<lambda>pv.
                save (today env) (snd (fetch_loop env [START_YEAR..current_year env - 2])) pv)) of
             Inl e \<Rightarrow> Raised e
           | Inr (path, out) \<Rightarrow> Saved path out))"
  by (simp add: run_def Let_def case_prod_beta)



lemma str_int_start: "str_int START_YEAR = ''2010''"
  by code_simp

lemma upt_0_2: "[0..<2] = [0, Suc 0]"
  by (simp add: upt_rec)

lemma upt_0_3: "[0..<3] = [0, Suc 0, Suc (Suc 0)]"
  by (simp add: upt_rec)

lemma str_int_2010: "str_int 2010 = ''2010''"
  by code_simp

lemma str_int_2011: "str_int 2011 = ''2011''"
  by code_simp

lemma str_int_2012: "str_int 2012 = ''2012''"
  by code_simp

lemma sample_env_years: "[START_YEAR..current_year sample_env - 2] = [2010, 2011, 2012]"
  by code_simp

lemma sample_env_fetch:
  "fetch_loop sample_env [2010, 2011, 2012] =
    ([\<lparr>year = 2010, Municipio = ''Adjuntas'', Establishments = Some 80\<rparr>,
     \<lparr>year = 2010, Municipio = ''Yauco'', Establishments = Some 10\<rparr>,
     \<lparr>year = 2011, Municipio = ''Adjuntas'', Establishments = Some 100\<rparr>,
     \<lparr>year = 2011, Municipio = ''Yauco'', Establishments = Some 0\<rparr>,
     \<lparr>year = 2012, Municipio = ''Adjuntas'', Establishments = Some 150\<rparr>,
     \<lparr>year = 2012, Municipio = ''Yauco'', Establishments = Some 5\<rparr>],
     [2010, 2011, 2012])"
  by code_simp

lemma sample_env_long:
  "add_island
    [\<lparr>year = 2010, Municipio = ''Adjuntas'', Establishments = Some 80\<rparr>,
     \<lparr>year = 2010, Municipio = ''Yauco'', Establishments = Some 10\<rparr>,
     \<lparr>year = 2011, Municipio = ''Adjuntas'', Establishments = Some 100\<rparr>,
     \<lparr>year = 2011, Municipio = ''Yauco'', Establishments = Some 0\<rparr>,
     \<lparr>year = 2012, Municipio = ''Adjuntas'', Establishments = Some 150\<rparr>,
     \<lparr>year = 2012, Municipio = ''Yauco'', Establishments = Some 5\<rparr>] =
   Inr [\<lparr>year = 2010, Municipio = ''Adjuntas'', Establishments = Some 80\<rparr>,
        \<lparr>year = 2011, Municipio = ''Adjuntas'', Establishments = Some 100\<rparr>,
        \<lparr>year = 2012, Municipio = ''Adjuntas'', Establishments = Some 150\<rparr>,
        \<lparr>year = 2010, Municipio = ''Yauco'', Establishments = Some 10\<rparr>,
        \<lparr>year = 2011, Municipio = ''Yauco'', Establishments = Some 0\<rparr>,
        \<lparr>year = 2012, Municipio = ''Yauco'', Establishments = Some 5\<rparr>,
        \<lparr>year = 2010, Municipio = ''Puerto Rico'', Establishments = Some 90\<rparr>,
        \<lparr>year = 2011, Municipio = ''Puerto Rico'', Establishments = Some 100\<rparr>,
        \<lparr>year = 2012, Municipio = ''Puerto Rico'', Establishments = Some 155\<rparr>]"
  by code_simp

lemma sample_env_pivot:
  "pivot
    [\<lparr>year = 2010, Municipio = ''Adjuntas'', Establishments = Some 80\<rparr>,
     \<lparr>year = 2011, Municipio = ''Adjuntas'', Establishments = Some 100\<rparr>,
     \<lparr>year = 2012, Municipio = ''Adjuntas'', Establishments = Some 150\<rparr>,
     \<lparr>year = 2010, Municipio = ''Yauco'', Establishments = Some 10\<rparr>,
     \<lparr>year = 2011, Municipio = ''Yauco'', Establishments = Some 0\<rparr>,
     \<lparr>year = 2012, Municipio = ''Yauco'', Establishments = Some 5\<rparr>,
     \<lparr>year = 2010, Municipio = ''Puerto Rico'', Establishments = Some 90\<rparr>,
     \<lparr>year = 2011, Municipio = ''Puerto Rico'', Establishments = Some 100\<rparr>,
     \<lparr>year = 2012, Municipio = ''Puerto Rico'', Establishments = Some 155\<rparr>] =
   Inr \<lparr>nrows = 3, columns =
        [(LStr ''Municipio'', StrCol [''Adjuntas'', ''Puerto Rico'', ''Yauco'']),
         (LInt 2010, NumCol [Fin 80, Fin 90, Fin 10]),
         (LInt 2011, NumCol [Fin 100, Fin 100, Fin 0]),
         (LInt 2012, NumCol [Fin 150, Fin 155, Fin 5])]\<rparr>"
  by code_simp

lemma sample_env_widen:
  "widen [2010, 2011, 2012]
    [\<lparr>year = 2010, Municipio = ''Adjuntas'', Establishments = Some 80\<rparr>,
     \<lparr>year = 2011, Municipio = ''Adjuntas'', Establishments = Some 100\<rparr>,
     \<lparr>year = 2012, Municipio = ''Adjuntas'', Establishments = Some 150\<rparr>,
     \<lparr>year = 2010, Municipio = ''Yauco'', Establishments = Some 10\<rparr>,
     \<lparr>year = 2011, Municipio = ''Yauco'', Establishments = Some 0\<rparr>,
     \<lparr>year = 2012, Municipio = ''Yauco'', Establishments = Some 5\<rparr>,
     \<lparr>year = 2010, Municipio = ''Puerto Rico'', Establishments = Some 90\<rparr>,
     \<lparr>year = 2011, Municipio = ''Puerto Rico'', Establishments = Some 100\<rparr>,
     \<lparr>year = 2012, Municipio = ''Puerto Rico'', Establishments = Some 155\<rparr>] =
   Inr \<lparr>nrows = 3, columns =
        [(LStr ''Municipio'', StrCol [''Adjuntas'', ''Puerto Rico'', ''Yauco'']),
         (LStr ''2010'', NumCol [Fin 80, Fin 90, Fin 10]),
         (LStr ''2011'', NumCol [Fin 100, Fin 100, Fin 0]),
         (LStr ''2012'', NumCol [Fin 150, Fin 155, Fin 5]),
         (LStr ''Change_2011_2012'', NumCol [Fin 50, Fin 55, Fin 5]),
         (LStr ''Pct_Change_2011_2012'', NumCol [Fin 50, Fin 55, PInf]),
         (LStr ''Cum_Change_2010_2012'', NumCol [Fin 70, Fin 65, Fin (- 5)]),
         (LStr ''Cum_Pct_Change_2010_2012'', NumCol [Fin (175 / 2), Fin (650 / 9), Fin (- 50)]),
         (LStr ''RealIncome_2010'', NoneCol),
         (LStr ''RealIncome_2011'', NoneCol),
         (LStr ''RealIncome_2012'', NoneCol),
         (LStr ''Real_Change_2011_2012'', NoneCol),
         (LStr ''Real_Pct_Change_2011_2012'', NoneCol),
         (LStr ''Real_Cum_Change_2010_2012'', NoneCol),
         (LStr ''Real_Cum_Pct_Change_2010_2012'', NoneCol)]\<rparr>"
  by (simp add: widen_def sample_env_pivot bind_err_def py_nth_def rename_columns_def rename_label_def
      add_changes_def add_change_def get_col_def set_col_def change_key_def pct_change_key_def
      cum_change_key_def cum_pct_change_key_def add_placeholders_def real_keys_def
      str_int_2010 str_int_2011 str_int_2012)

lemma sample_env_run:
  "run sample_env =
    Saved ''municipios_cbp_establishments_2010_2012_wide.json''
    [Row [(LStr ''Municipio'', VStr ''Adjuntas''),
          (LStr ''2010'', VNum (Fin 80)),
          (LStr ''2011'', VNum (Fin 100)),
          (LStr ''2012'', VNum (Fin 150)),
          (LStr ''Change_2011_2012'', VNum (Fin 50)),
          (LStr ''Pct_Change_2011_2012'', VNum (Fin 50)),
          (LStr ''Cum_Change_2010_2012'', VNum (Fin 70)),
          (LStr ''Cum_Pct_Change_2010_2012'', VNum (Fin (175 / 2))),
          (LStr ''RealIncome_2010'', VNone),
          (LStr ''RealIncome_2011'', VNone),
          (LStr ''RealIncome_2012'', VNone),
          (LStr ''Real_Change_2011_2012'', VNone),
          (LStr ''Real_Pct_Change_2011_2012'', VNone),
          (LStr ''Real_Cum_Change_2010_2012'', VNone),
          (LStr ''Real_Cum_Pct_Change_2010_2012'', VNone)],
     Row [(LStr ''Municipio'', VStr ''Puerto Rico''),
          (LStr ''2010'', VNum (Fin 90)),
          (LStr ''2011'', VNum (Fin 100)),
          (LStr ''2012'', VNum (Fin 155)),
          (LStr ''Change_2011_2012'', VNum (Fin 55)),
          (LStr ''Pct_Change_2011_2012'', VNum (Fin 55)),
          (LStr ''Cum_Change_2010_2012'', VNum (Fin 65)),
          (LStr ''Cum_Pct_Change_2010_2012'', VNum (Fin (650 / 9))),
          (LStr ''RealIncome_2010'', VNone),
          (LStr ''RealIncome_2011'', VNone),
          (LStr ''RealIncome_2012'', VNone),
          (LStr ''Real_Change_2011_2012'', VNone),
          (LStr ''Real_Pct_Change_2011_2012'', VNone),
          (LStr ''Real_Cum_Change_2010_2012'', VNone),
          (LStr ''Real_Cum_Pct_Change_2010_2012'', VNone)],
     Row [(LStr ''Municipio'', VStr ''Yauco''),
          (LStr ''2010'', VNum (Fin 10)),
          (LStr ''2011'', VNum (Fin 0)),
          (LStr ''2012'', VNum (Fin 5)),
          (LStr ''Change_2011_2012'', VNum (Fin 5)),
          (LStr ''Pct_Change_2011_2012'', VNum PInf),
          (LStr ''Cum_Change_2010_2012'', VNum (Fin (- 5))),
          (LStr ''Cum_Pct_Change_2010_2012'', VNum (Fin (- 50))),
          (LStr ''RealIncome_2010'', VNone),
          (LStr ''RealIncome_2011'', VNone),
          (LStr ''RealIncome_2012'', VNone),
          (LStr ''Real_Change_2011_2012'', VNone),
          (LStr ''Real_Pct_Change_2011_2012'', VNone),
          (LStr ''Real_Cum_Change_2010_2012'', VNone),
          (LStr ''Real_Cum_Pct_Change_2010_2012'', VNone)],
     Metadata (make_metadata (today sample_env) [2010, 2011, 2012])]"
  by (simp add: run_cases sample_env_years sample_env_fetch sample_env_long sample_env_widen bind_err_def save_def py_nth_def
      to_dict_def json_name_def str_int_start upt_0_2 upt_0_3 str_int_2010 str_int_2011 str_int_2012)

lemma gap_env_years: "[START_YEAR..current_year gap_env - 2] = [2010, 2011, 2012]"
  by code_simp

lemma gap_env_fetch:
  "fetch_loop gap_env [2010, 2011, 2012] =
    ([\<lparr>year = 2010, Municipio = ''Adjuntas'', Establishments = Some 80\<rparr>,
     \<lparr>year = 2012, Municipio = ''Adjuntas'', Establishments = Some 150\<rparr>],
     [2010, 2012])"
  by code_simp

lemma gap_env_long:
  "add_island
    [\<lparr>year = 2010, Municipio = ''Adjuntas'', Establishments = Some 80\<rparr>,
     \<lparr>year = 2012, Municipio = ''Adjuntas'', Establishments = Some 150\<rparr>] =
   Inr [\<lparr>year = 2010, Municipio = ''Adjuntas'', Establishments = Some 80\<rparr>,
        \<lparr>year = 2012, Municipio = ''Adjuntas'', Establishments = Some 150\<rparr>,
        \<lparr>year = 2010, Municipio = ''Puerto Rico'', Establishments = Some 80\<rparr>,
        \<lparr>year = 2012, Municipio = ''Puerto Rico'', Establishments = Some 150\<rparr>]"
  by code_simp

lemma gap_env_pivot:
  "pivot
    [\<lparr>year = 2010, Municipio = ''Adjuntas'', Establishments = Some 80\<rparr>,
     \<lparr>year = 2012, Municipio = ''Adjuntas'', Establishments = Some 150\<rparr>,
     \<lparr>year = 2010, Municipio = ''Puerto Rico'', Establishments = Some 80\<rparr>,
     \<lparr>year = 2012, Municipio = ''Puerto Rico'', Establishments = Some 150\<rparr>] =
   Inr \<lparr>nrows = 2, columns =
        [(LStr ''Municipio'', StrCol [''Adjuntas'', ''Puerto Rico'']),
         (LInt 2010, NumCol [Fin 80, Fin 80]),
         (LInt 2012, NumCol [Fin 150, Fin 150])]\<rparr>"
  by code_simp

lemma gap_env_widen:
  "widen [2010, 2012]
    [\<lparr>year = 2010, Municipio = ''Adjuntas'', Establishments = Some 80\<rparr>,
     \<lparr>year = 2012, Municipio = ''Adjuntas'', Establishments = Some 150\<rparr>,
     \<lparr>year = 2010, Municipio = ''Puerto Rico'', Establishments = Some 80\<rparr>,
     \<lparr>year = 2012, Municipio = ''Puerto Rico'', Establishments = Some 150\<rparr>] =
   Inr \<lparr>nrows = 2, columns =
        [(LStr ''Municipio'', StrCol [''Adjuntas'', ''Puerto Rico'']),
         (LStr ''2010'', NumCol [Fin 80, Fin 80]),
         (LStr ''2012'', NumCol [Fin 150, Fin 150]),
         (LStr ''Change_2010_2012'', NumCol [Fin 70, Fin 70]),
         (LStr ''Pct_Change_2010_2012'', NumCol [Fin (175 / 2), Fin (175 / 2)]),
         (LStr ''Cum_Change_2010_2012'', NumCol [Fin 70, Fin 70]),
         (LStr ''Cum_Pct_Change_2010_2012'', NumCol [Fin (175 / 2), Fin (175 / 2)]),
         (LStr ''RealIncome_2010'', NoneCol),
         (LStr ''RealIncome_2012'', NoneCol),
         (LStr ''Real_Change_2010_2012'', NoneCol),
         (LStr ''Real_Pct_Change_2010_2012'', NoneCol),
         (LStr ''Real_Cum_Change_2010_2012'', NoneCol),
         (LStr ''Real_Cum_Pct_Change_2010_2012'', NoneCol)]\<rparr>"
  by (simp add: widen_def gap_env_pivot bind_err_def py_nth_def rename_columns_def rename_label_def
      add_changes_def add_change_def get_col_def set_col_def change_key_def pct_change_key_def
      cum_change_key_def cum_pct_change_key_def add_placeholders_def real_keys_def
      str_int_2010 str_int_2012)

lemma gap_env_run:
  "run gap_env =
    Saved ''municipios_cbp_establishments_2010_2012_wide.json''
    [Row [(LStr ''Municipio'', VStr ''Adjuntas''),
          (LStr ''2010'', VNum (Fin 80)),
          (LStr ''2012'', VNum (Fin 150)),
          (LStr ''Change_2010_2012'', VNum (Fin 70)),
          (LStr ''Pct_Change_2010_2012'', VNum (Fin (175 / 2))),
          (LStr ''Cum_Change_2010_2012'', VNum (Fin 70)),
          (LStr ''Cum_Pct_Change_2010_2012'', VNum (Fin (175 / 2))),
          (LStr ''RealIncome_2010'', VNone),
          (LStr ''RealIncome_2012'', VNone),
          (LStr ''Real_Change_2010_2012'', VNone),
          (LStr ''Real_Pct_Change_2010_2012'', VNone),
          (LStr ''Real_Cum_Change_2010_2012'', VNone),
          (LStr ''Real_Cum_Pct_Change_2010_2012'', VNone)],
     Row [(LStr ''Municipio'', VStr ''Puerto Rico''),
          (LStr ''2010'', VNum (Fin 80)),
          (LStr ''2012'', VNum (Fin 150)),
          (LStr ''Change_2010_2012'', VNum (Fin 70)),
          (LStr ''Pct_Change_2010_2012'', VNum (Fin (175 / 2))),
          (LStr ''Cum_Change_2010_2012'', VNum (Fin 70)),
          (LStr ''Cum_Pct_Change_2010_2012'', VNum (Fin (175 / 2))),
          (LStr ''RealIncome_2010'', VNone),
          (LStr ''RealIncome_2012'', VNone),
          (LStr ''Real_Change_2010_2012'', VNone),
          (LStr ''Real_Pct_Change_2010_2012'', VNone),
          (LStr ''Real_Cum_Change_2010_2012'', VNone),
          (LStr ''Real_Cum_Pct_Change_2010_2012'', VNone)],
     Metadata (make_metadata (today gap_env) [2010, 2012])]"
  by (simp add: run_cases gap_env_years gap_env_fetch gap_env_long gap_env_widen bind_err_def save_def py_nth_def
      to_dict_def json_name_def str_int_start upt_0_2 upt_0_3 str_int_2010 str_int_2012)

lemma dup_env_years: "[START_YEAR..current_year dup_env - 2] = [2010, 2011]"
  by code_simp

lemma dup_env_fetch:
  "fetch_loop dup_env [2010, 2011] =
    ([\<lparr>year = 2010, Municipio = ''Adjuntas'', Establishments = None\<rparr>,
     \<lparr>year = 2010, Municipio = ''Adjuntas'', Establishments = Some 5\<rparr>,
     \<lparr>year = 2011, Municipio = ''Adjuntas'', Establishments = Some 7\<rparr>],
     [2010, 2011])"
  by code_simp

lemma dup_env_long:
  "add_island
    [\<lparr>year = 2010, Municipio = ''Adjuntas'', Establishments = None\<rparr>,
     \<lparr>year = 2010, Municipio = ''Adjuntas'', Establishments = Some 5\<rparr>,
     \<lparr>year = 2011, Municipio = ''Adjuntas'', Establishments = Some 7\<rparr>] =
   Inr [\<lparr>year = 2010, Municipio = ''Adjuntas'', Establishments = Some 5\<rparr>,
        \<lparr>year = 2011, Municipio = ''Adjuntas'', Establishments = Some 7\<rparr>,
        \<lparr>year = 2010, Municipio = ''Puerto Rico'', Establishments = Some 5\<rparr>,
        \<lparr>year = 2011, Municipio = ''Puerto Rico'', Establishments = Some 7\<rparr>]"
  by code_simp

lemma dup_env_pivot:
  "pivot
    [\<lparr>year = 2010, Municipio = ''Adjuntas'', Establishments = Some 5\<rparr>,
     \<lparr>year = 2011, Municipio = ''Adjuntas'', Establishments = Some 7\<rparr>,
     \<lparr>year = 2010, Municipio = ''Puerto Rico'', Establishments = Some 5\<rparr>,
     \<lparr>year = 2011, Municipio = ''Puerto Rico'', Establishments = Some 7\<rparr>] =
   Inr \<lparr>nrows = 2, columns =
        [(LStr ''Municipio'', StrCol [''Adjuntas'', ''Puerto Rico'']),
         (LInt 2010, NumCol [Fin 5, Fin 5]),
         (LInt 2011, NumCol [Fin 7, Fin 7])]\<rparr>"
  by code_simp

lemma dup_env_widen:
  "widen [2010, 2011]
    [\<lparr>year = 2010, Municipio = ''Adjuntas'', Establishments = Some 5\<rparr>,
     \<lparr>year = 2011, Municipio = ''Adjuntas'', Establishments = Some 7\<rparr>,
     \<lparr>year = 2010, Municipio = ''Puerto Rico'', Establishments = Some 5\<rparr>,
     \<lparr>year = 2011, Municipio = ''Puerto Rico'', Establishments = Some 7\<rparr>] =
   Inr \<lparr>nrows = 2, columns =
        [(LStr ''Municipio'', StrCol [''Adjuntas'', ''Puerto Rico'']),
         (LStr ''2010'', NumCol [Fin 5, Fin 5]),
         (LStr ''2011'', NumCol [Fin 7, Fin 7]),
         (LStr ''Change_2010_2011'', NumCol [Fin 2, Fin 2]),
         (LStr ''Pct_Change_2010_2011'', NumCol [Fin 40, Fin 40]),
         (LStr ''Cum_Change_2010_2011'', NumCol [Fin 2, Fin 2]),
         (LStr ''Cum_Pct_Change_2010_2011'', NumCol [Fin 40, Fin 40]),
         (LStr ''RealIncome_2010'', NoneCol),
         (LStr ''RealIncome_2011'', NoneCol),
         (LStr ''Real_Change_2010_2011'', NoneCol),
         (LStr ''Real_Pct_Change_2010_2011'', NoneCol),
         (LStr ''Real_Cum_Change_2010_2011'', NoneCol),
         (LStr ''Real_Cum_Pct_Change_2010_2011'', NoneCol)]\<rparr>"
  by (simp add: widen_def dup_env_pivot bind_err_def py_nth_def rename_columns_def rename_label_def
      add_changes_def add_change_def get_col_def set_col_def change_key_def pct_change_key_def
      cum_change_key_def cum_pct_change_key_def add_placeholders_def real_keys_def
      str_int_2010 str_int_2011)

lemma dup_env_run:
  "run dup_env =
    Saved ''municipios_cbp_establishments_2010_2011_wide.json''
    [Row [(LStr ''Municipio'', VStr ''Adjuntas''),
          (LStr ''2010'', VNum (Fin 5)),
          (LStr ''2011'', VNum (Fin 7)),
          (LStr ''Change_2010_2011'', VNum (Fin 2)),
          (LStr ''Pct_Change_2010_2011'', VNum (Fin 40)),
          (LStr ''Cum_Change_2010_2011'', VNum (Fin 2)),
          (LStr ''Cum_Pct_Change_2010_2011'', VNum (Fin 40)),
          (LStr ''RealIncome_2010'', VNone),
          (LStr ''RealIncome_2011'', VNone),
          (LStr ''Real_Change_2010_2011'', VNone),
          (LStr ''Real_Pct_Change_2010_2011'', VNone),
          (LStr ''Real_Cum_Change_2010_2011'', VNone),
          (LStr ''Real_Cum_Pct_Change_2010_2011'', VNone)],
     Row [(LStr ''Municipio'', VStr ''Puerto Rico''),
          (LStr ''2010'', VNum (Fin 5)),
          (LStr ''2011'', VNum (Fin 7)),
          (LStr ''Change_2010_2011'', VNum (Fin 2)),
          (LStr ''Pct_Change_2010_2011'', VNum (Fin 40)),
          (LStr ''Cum_Change_2010_2011'', VNum (Fin 2)),
          (LStr ''Cum_Pct_Change_2010_2011'', VNum (Fin 40)),
          (LStr ''RealIncome_2010'', VNone),
          (LStr ''RealIncome_2011'', VNone),
          (LStr ''Real_Change_2010_2011'', VNone),
          (LStr ''Real_Pct_Change_2010_2011'', VNone),
          (LStr ''Real_Cum_Change_2010_2011'', VNone),
          (LStr ''Real_Cum_Pct_Change_2010_2011'', VNone)],
     Metadata (make_metadata (today dup_env) [2010, 2011])]"
  by (simp add: run_cases dup_env_years dup_env_fetch dup_env_long dup_env_widen bind_err_def save_def py_nth_def
      to_dict_def json_name_def str_int_start upt_0_2 upt_0_3 str_int_2010 str_int_2011)

lemma lone_env_years: "[START_YEAR..current_year lone_env - 2] = [2010, 2011]"
  by code_simp

lemma lone_env_fetch:
  "fetch_loop lone_env [2010, 2011] =
    ([\<lparr>year = 2010, Municipio = ''Adjuntas'', Establishments = Some 5\<rparr>,
     \<lparr>year = 2011, Municipio = ''Adjuntas'', Establishments = Some 7\<rparr>],
     [2010, 2011])"
  by code_simp

lemma lone_env_long:
  "add_island
    [\<lparr>year = 2010, Municipio = ''Adjuntas'', Establishments = Some 5\<rparr>,
     \<lparr>year = 2011, Municipio = ''Adjuntas'', Establishments = Some 7\<rparr>] =
   Inr [\<lparr>year = 2010, Municipio = ''Adjuntas'', Establishments = Some 5\<rparr>,
        \<lparr>year = 2011, Municipio = ''Adjuntas'', Establishments = Some 7\<rparr>,
        \<lparr>year = 2010, Municipio = ''Puerto Rico'', Establishments = Some 5\<rparr>,
        \<lparr>year = 2011, Municipio = ''Puerto Rico'', Establishments = Some 7\<rparr>]"
  by code_simp

lemma lone_env_pivot:
  "pivot
    [\<lparr>year = 2010, Municipio = ''Adjuntas'', Establishments = Some 5\<rparr>,
     \<lparr>year = 2011, Municipio = ''Adjuntas'', Establishments = Some 7\<rparr>,
     \<lparr>year = 2010, Municipio = ''Puerto Rico'', Establishments = Some 5\<rparr>,
     \<lparr>year = 2011, Municipio = ''Puerto Rico'', Establishments = Some 7\<rparr>] =
   Inr \<lparr>nrows = 2, columns =
        [(LStr ''Municipio'', StrCol [''Adjuntas'', ''Puerto Rico'']),
         (LInt 2010, NumCol [Fin 5, Fin 5]),
         (LInt 2011, NumCol [Fin 7, Fin 7])]\<rparr>"
  by code_simp

lemma lone_env_widen:
  "widen [2010, 2011]
    [\<lparr>year = 2010, Municipio = ''Adjuntas'', Establishments = Some 5\<rparr>,
     \<lparr>year = 2011, Municipio = ''Adjuntas'', Establishments = Some 7\<rparr>,
     \<lparr>year = 2010, Municipio = ''Puerto Rico'', Establishments = Some 5\<rparr>,
     \<lparr>year = 2011, Municipio = ''Puerto Rico'', Establishments = Some 7\<rparr>] =
   Inr \<lparr>nrows = 2, columns =
        [(LStr ''Municipio'', StrCol [''Adjuntas'', ''Puerto Rico'']),
         (LStr ''2010'', NumCol [Fin 5, Fin 5]),
         (LStr ''2011'', NumCol [Fin 7, Fin 7]),
         (LStr ''Change_2010_2011'', NumCol [Fin 2, Fin 2]),
         (LStr ''Pct_Change_2010_2011'', NumCol [Fin 40, Fin 40]),
         (LStr ''Cum_Change_2010_2011'', NumCol [Fin 2, Fin 2]),
         (LStr ''Cum_Pct_Change_2010_2011'', NumCol [Fin 40, Fin 40]),
         (LStr ''RealIncome_2010'', NoneCol),
         (LStr ''RealIncome_2011'', NoneCol),
         (LStr ''Real_Change_2010_2011'', NoneCol),
         (LStr ''Real_Pct_Change_2010_2011'', NoneCol),
         (LStr ''Real_Cum_Change_2010_2011'', NoneCol),
         (LStr ''Real_Cum_Pct_Change_2010_2011'', NoneCol)]\<rparr>"
  by (simp add: widen_def lone_env_pivot bind_err_def py_nth_def rename_columns_def rename_label_def
      add_changes_def add_change_def get_col_def set_col_def change_key_def pct_change_key_def
      cum_change_key_def cum_pct_change_key_def add_placeholders_def real_keys_def
      str_int_2010 str_int_2011)

lemma lone_env_run:
  "run lone_env =
    Saved ''municipios_cbp_establishments_2010_2011_wide.json''
    [Row [(LStr ''Municipio'', VStr ''Adjuntas''),
          (LStr ''2010'', VNum (Fin 5)),
          (LStr ''2011'', VNum (Fin 7)),
          (LStr ''Change_2010_2011'', VNum (Fin 2)),
          (LStr ''Pct_Change_2010_2011'', VNum (Fin 40)),
          (LStr ''Cum_Change_2010_2011'', VNum (Fin 2)),
          (LStr ''Cum_Pct_Change_2010_2011'', VNum (Fin 40)),
          (LStr ''RealIncome_2010'', VNone),
          (LStr ''RealIncome_2011'', VNone),
          (LStr ''Real_Change_2010_2011'', VNone),
          (LStr ''Real_Pct_Change_2010_2011'', VNone),
          (LStr ''Real_Cum_Change_2010_2011'', VNone),
          (LStr ''Real_Cum_Pct_Change_2010_2011'', VNone)],
     Row [(LStr ''Municipio'', VStr ''Puerto Rico''),
          (LStr ''2010'', VNum (Fin 5)),
          (LStr ''2011'', VNum (Fin 7)),
          (LStr ''Change_2010_2011'', VNum (Fin 2)),
          (LStr ''Pct_Change_2010_2011'', VNum (Fin 40)),
          (LStr ''Cum_Change_2010_2011'', VNum (Fin 2)),
          (LStr ''Cum_Pct_Change_2010_2011'', VNum (Fin 40)),
          (LStr ''RealIncome_2010'', VNone),
          (LStr ''RealIncome_2011'', VNone),
          (LStr ''Real_Change_2010_2011'', VNone),
          (LStr ''Real_Pct_Change_2010_2011'', VNone),
          (LStr ''Real_Cum_Change_2010_2011'', VNone),
          (LStr ''Real_Cum_Pct_Change_2010_2011'', VNone)],
     Metadata (make_metadata (today lone_env) [2010, 2011])]"
  by (simp add: run_cases lone_env_years lone_env_fetch lone_env_long lone_env_widen bind_err_def save_def py_nth_def
      to_dict_def json_name_def str_int_start upt_0_2 upt_0_3 str_int_2010 str_int_2011)

lemma gap_answer:
  "http_get gap_env 2011 (get_naics_variable_name 2011)
     = Response 200 (Some (JArr [JArr [JStr ''NAME'', JStr ''ESTAB'', JStr ''state'', JStr ''county'']]))"
  by (simp add: gap_env_def service_def api_table_def)



text \<open>
  C2, as amended. A year whose answer has status 200 and a body with a header and no rows
  is skipped alone: the pass of that year leaves the state of the loop as it was, and the
  loop goes on with the other years as if the year were not in the range.
\<close>

theorem header_only_skips_year:
  assumes "http_get env y (get_naics_variable_name y) = Response 200 (Some data)"
    and "py_iter data = Inr [header]"
  shows "fetch_year env st y = st
    \<and> fetch_loop env (ys1 @ y # ys2) = fetch_loop env (ys1 @ ys2)"
proof -
  have "fetch_year env s y = s" for s
    using assms by (simp add: fetch_year_def split: sum.splits)
  then show ?thesis by (simp add: fetch_loop_def)
qed

theorem header_only_skips_year_witness:
  "http_get gap_env 2011 (get_naics_variable_name 2011)
     = Response 200 (Some (JArr [JArr [JStr ''NAME'', JStr ''ESTAB'', JStr ''state'', JStr ''county'']]))
   \<and> fetch_year gap_env ([], [2010]) 2011 = ([], [2010])
   \<and> fetch_loop gap_env ([2010] @ 2011 # [2012]) = fetch_loop gap_env ([2010] @ [2012])"
  using header_only_skips_year [of gap_env 2011 _ _ "([], [2010])" "[2010]" "[2012]", OF gap_answer]
  by (simp add: gap_answer)

text \<open>
  C2, as stated, fails: in this run the answer for 2011 has a header and no rows, and the
  run still writes its file, with the rows of 2010 and 2012.
\<close>

theorem header_only_run_counterexample:
  "http_get gap_env 2011 (get_naics_variable_name 2011)
     = Response 200 (Some (JArr [JArr [JStr ''NAME'', JStr ''ESTAB'', JStr ''state'', JStr ''county'']]))
   \<and> saved (run gap_env)
   \<and> length (items (run gap_env)) = 3
   \<and> field (items (run gap_env) ! 0) ''2010'' = Some (VNum (Fin 80))
   \<and> field (items (run gap_env) ! 0) ''2012'' = Some (VNum (Fin 150))"
  by (simp add: gap_answer gap_env_run)

section \<open>Facts about the wide table\<close>

declare str_nat.simps [simp del]

lemma digit_char_digit: "d < 10 \<Longrightarrow> is_digit (digit_char d)"
  unfolding digit_char_def is_digit_def by (rule nth_mem) simp

lemma str_nat_digits: "c \<in> set (str_nat n) \<Longrightarrow> is_digit c"
proof (induction n rule: str_nat.induct)
  case (1 n)
  show ?case
  proof (cases "n < 10")
    case True
    then have "str_nat n = [digit_char n]" by (subst str_nat.simps) simp
    with "1.prems" True show ?thesis by (simp add: digit_char_digit)
  next
    case False
    then have e: "str_nat n = str_nat (n div 10) @ [digit_char (n mod 10)]"
      by (subst str_nat.simps) simp
    have "is_digit (digit_char (n mod 10))"
      by (rule digit_char_digit) simp
    with False "1.IH" "1.prems" e show ?thesis by auto
  qed
qed

lemma str_int_not_letter:
  assumes "\<not> is_digit c" and "c \<noteq> CHR ''-''"
  shows "str_int y \<noteq> c # t"
proof
  assume a: "str_int y = c # t"
  show False
  proof (cases "y < 0")
    case True
    with a assms(2) show False by (simp add: str_int_def)
  next
    case False
    with a have "c \<in> set (str_nat (nat y))" by (simp add: str_int_def)
    with assms(1) str_nat_digits show False by blast
  qed
qed

lemma letters_not_digits:
  "\<not> is_digit (CHR ''C'')" "\<not> is_digit (CHR ''P'')" "\<not> is_digit (CHR ''R'')" "\<not> is_digit (CHR ''M'')"
  by (simp_all add: is_digit_def)

lemma str_int_not_key:
  "str_int y \<noteq> ''Municipio''"
  "str_int y \<noteq> change_key a b"
  "str_int y \<noteq> pct_change_key a b"
  "str_int y \<noteq> cum_change_key a b"
  "str_int y \<noteq> cum_pct_change_key a b"
  "str_int y \<noteq> ''RealIncome_'' @ a"
  by (simp_all add: change_key_def pct_change_key_def cum_change_key_def cum_pct_change_key_def
      str_int_not_letter letters_not_digits)

lemma str_int_not_real_key: "str_int y \<notin> set (real_keys f p l)"
  by (simp add: real_keys_def str_int_not_letter letters_not_digits)

lemma keys_differ:
  "change_key a b \<noteq> pct_change_key c d"
  "change_key a b \<noteq> cum_change_key c d"
  "change_key a b \<noteq> cum_pct_change_key c d"
  "pct_change_key a b \<noteq> cum_change_key c d"
  "pct_change_key a b \<noteq> cum_pct_change_key c d"
  "cum_change_key a b \<noteq> cum_pct_change_key c d"
  by (simp_all add: change_key_def pct_change_key_def cum_change_key_def cum_pct_change_key_def)

lemma keys_not_placeholder:
  "change_key a b \<noteq> ''RealIncome_'' @ x" "pct_change_key a b \<noteq> ''RealIncome_'' @ x"
  "cum_change_key a b \<noteq> ''RealIncome_'' @ x" "cum_pct_change_key a b \<noteq> ''RealIncome_'' @ x"
  "''Municipio'' \<noteq> ''RealIncome_'' @ x"
  "change_key a b \<notin> set (real_keys f p l)" "pct_change_key a b \<notin> set (real_keys f p l)"
  "cum_change_key a b \<notin> set (real_keys f p l)" "cum_pct_change_key a b \<notin> set (real_keys f p l)"
  "''Municipio'' \<notin> set (real_keys f p l)"
  "''Municipio'' \<noteq> change_key a b" "''Municipio'' \<noteq> pct_change_key a b"
  "''Municipio'' \<noteq> cum_change_key a b" "''Municipio'' \<noteq> cum_pct_change_key a b"
  by (simp_all add: change_key_def pct_change_key_def cum_change_key_def cum_pct_change_key_def
      real_keys_def)


lemma map_of_set_col:
  "map_of (columns (set_col pv k s)) = (map_of (columns pv))(k \<mapsto> s)"
  by (simp add: set_col_def update_conv')

lemma nrows_set_col: "nrows (set_col pv k s) = nrows pv"
  by (simp add: set_col_def)

lemma get_col_Inr: "get_col pv k = Inr s \<longleftrightarrow> map_of (columns pv) k = Some s"
  by (simp add: get_col_def split: option.splits)

lemma series_binop_Inr:
  "series_binop f a b = Inr c \<longleftrightarrow> (\<exists>xs ys. a = NumCol xs \<and> b = NumCol ys \<and> c = NumCol (map2 f xs ys))"
  by (cases "(f, a, b)" rule: series_binop.cases) auto

lemma add_change_eq:
  assumes "map_of (columns pv) (LStr to) = Some (NumCol t)"
    and "map_of (columns pv) (LStr from) = Some (NumCol f)"
    and "ck \<noteq> from"
  shows "add_change ck pk from to pv
    = Inr (set_col (set_col pv (LStr ck) (NumCol (map2 fl_sub t f))) (LStr pk)
        (NumCol (map (\<lambda>x. fl_mul x (Fin 100)) (map2 fl_div (map2 fl_sub t f) f))))"
  using assms by (simp add: add_change_def bind_err_def get_col_def map_of_set_col)

lemma add_change_Inr:
  assumes "add_change ck pk from to pv = Inr pv'"
  shows "\<exists>t f. map_of (columns pv) (LStr to) = Some (NumCol t)
     \<and> map_of (columns pv) (LStr from) = Some (NumCol f)"
proof -
  from assms obtain a b c where
    "get_col pv (LStr to) = Inr a" "get_col pv (LStr from) = Inr b" "series_binop fl_sub a b = Inr c"
    unfolding add_change_def bind_err_Inr by blast
  then show ?thesis by (auto simp: get_col_Inr series_binop_Inr)
qed

lemma add_changes_eq:
  assumes f: "map_of (columns pv) (LStr (str_int F)) = Some (NumCol fs)"
    and p: "map_of (columns pv) (LStr (str_int P)) = Some (NumCol ps)"
    and l: "map_of (columns pv) (LStr (str_int L)) = Some (NumCol ls)"
  shows "\<exists>pv'. add_changes (str_int F) (str_int P) (str_int L) pv = Inr pv'
    \<and> nrows pv' = nrows pv
    \<and> map_of (columns pv') = (map_of (columns pv))
        (LStr (change_key (str_int P) (str_int L)) \<mapsto> NumCol (map2 fl_sub ls ps),
         LStr (pct_change_key (str_int P) (str_int L)) \<mapsto>
           NumCol (map (\<lambda>x. fl_mul x (Fin 100)) (map2 fl_div (map2 fl_sub ls ps) ps)),
         LStr (cum_change_key (str_int F) (str_int L)) \<mapsto> NumCol (map2 fl_sub ls fs),
         LStr (cum_pct_change_key (str_int F) (str_int L)) \<mapsto>
           NumCol (map (\<lambda>x. fl_mul x (Fin 100)) (map2 fl_div (map2 fl_sub ls fs) fs)))"
proof -
  define pv2 where "pv2 = set_col (set_col pv (LStr (change_key (str_int P) (str_int L)))
      (NumCol (map2 fl_sub ls ps))) (LStr (pct_change_key (str_int P) (str_int L)))
      (NumCol (map (\<lambda>x. fl_mul x (Fin 100)) (map2 fl_div (map2 fl_sub ls ps) ps)))"
  have one: "add_change (change_key (str_int P) (str_int L)) (pct_change_key (str_int P) (str_int L))
      (str_int P) (str_int L) pv = Inr pv2"
    unfolding pv2_def using l p by (rule add_change_eq) (simp add: str_int_not_key [symmetric])
  have l2: "map_of (columns pv2) (LStr (str_int L)) = Some (NumCol ls)"
    unfolding pv2_def using l by (simp add: map_of_set_col str_int_not_key str_int_not_key [symmetric])
  have f2: "map_of (columns pv2) (LStr (str_int F)) = Some (NumCol fs)"
    unfolding pv2_def using f by (simp add: map_of_set_col str_int_not_key str_int_not_key [symmetric])
  define pv3 where "pv3 = set_col (set_col pv2 (LStr (cum_change_key (str_int F) (str_int L)))
      (NumCol (map2 fl_sub ls fs))) (LStr (cum_pct_change_key (str_int F) (str_int L)))
      (NumCol (map (\<lambda>x. fl_mul x (Fin 100)) (map2 fl_div (map2 fl_sub ls fs) fs)))"
  have two: "add_change (cum_change_key (str_int F) (str_int L))
      (cum_pct_change_key (str_int F) (str_int L)) (str_int F) (str_int L) pv2 = Inr pv3"
    unfolding pv3_def using l2 f2 by (rule add_change_eq) (simp add: str_int_not_key [symmetric])
  have "add_changes (str_int F) (str_int P) (str_int L) pv = Inr pv3"
    by (simp add: add_changes_def bind_err_def one two)
  moreover have "nrows pv3 = nrows pv"
    by (simp add: pv3_def pv2_def nrows_set_col)
  moreover have "map_of (columns pv3) = (map_of (columns pv))
        (LStr (change_key (str_int P) (str_int L)) \<mapsto> NumCol (map2 fl_sub ls ps),
         LStr (pct_change_key (str_int P) (str_int L)) \<mapsto>
           NumCol (map (\<lambda>x. fl_mul x (Fin 100)) (map2 fl_div (map2 fl_sub ls ps) ps)),
         LStr (cum_change_key (str_int F) (str_int L)) \<mapsto> NumCol (map2 fl_sub ls fs),
         LStr (cum_pct_change_key (str_int F) (str_int L)) \<mapsto>
           NumCol (map (\<lambda>x. fl_mul x (Fin 100)) (map2 fl_div (map2 fl_sub ls fs) fs)))"
    by (simp add: pv3_def pv2_def map_of_set_col)
  ultimately show ?thesis by blast
qed

lemma add_changes_Inr:
  assumes "add_changes (str_int F) (str_int P) (str_int L) pv = Inr pv'"
  shows "\<exists>fs ps ls. map_of (columns pv) (LStr (str_int F)) = Some (NumCol fs)
     \<and> map_of (columns pv) (LStr (str_int P)) = Some (NumCol ps)
     \<and> map_of (columns pv) (LStr (str_int L)) = Some (NumCol ls)"
proof -
  from assms obtain pv2 where
    one: "add_change (change_key (str_int P) (str_int L)) (pct_change_key (str_int P) (str_int L))
      (str_int P) (str_int L) pv = Inr pv2"
    and two: "add_change (cum_change_key (str_int F) (str_int L))
      (cum_pct_change_key (str_int F) (str_int L)) (str_int F) (str_int L) pv2 = Inr pv'"
    unfolding add_changes_def bind_err_Inr by blast
  from add_change_Inr [OF one] obtain ls ps where
    l: "map_of (columns pv) (LStr (str_int L)) = Some (NumCol ls)"
    and p: "map_of (columns pv) (LStr (str_int P)) = Some (NumCol ps)" by blast
  have "change_key (str_int P) (str_int L) \<noteq> str_int P"
    by (simp add: str_int_not_key [symmetric])
  from add_change_eq [OF l p this] one
  have pv2: "pv2 = set_col (set_col pv (LStr (change_key (str_int P) (str_int L)))
      (NumCol (map2 fl_sub ls ps))) (LStr (pct_change_key (str_int P) (str_int L)))
      (NumCol (map (\<lambda>x. fl_mul x (Fin 100)) (map2 fl_div (map2 fl_sub ls ps) ps)))"
    by simp
  from add_change_Inr [OF two] obtain fs where
    "map_of (columns pv2) (LStr (str_int F)) = Some (NumCol fs)" by blast
  then have "map_of (columns pv) (LStr (str_int F)) = Some (NumCol fs)"
    unfolding pv2 by (simp add: map_of_set_col str_int_not_key str_int_not_key [symmetric])
  with l p show ?thesis by blast
qed

lemma foldl_set_col_other:
  assumes "\<And>y. k \<noteq> g y"
  shows "map_of (columns (foldl (\<lambda>p y. set_col p (g y) NoneCol) pv ys)) k = map_of (columns pv) k"
  using assms by (induction ys arbitrary: pv) (simp_all add: map_of_set_col)

lemma foldl_set_col_other_list:
  assumes "k \<notin> g ` set ys"
  shows "map_of (columns (foldl (\<lambda>p y. set_col p (g y) NoneCol) pv ys)) k = map_of (columns pv) k"
  using assms by (induction ys arbitrary: pv) (auto simp: map_of_set_col)

lemma nrows_foldl_set_col:
  "nrows (foldl (\<lambda>p y. set_col p (g y) NoneCol) pv ys) = nrows pv"
  by (induction ys arbitrary: pv) (simp_all add: nrows_set_col)

lemma add_placeholders_other:
  assumes "\<And>y. k \<noteq> ''RealIncome_'' @ str_int y" and "k \<notin> set (real_keys f p l)"
  shows "map_of (columns (add_placeholders sy f p l pv)) (LStr k) = map_of (columns pv) (LStr k)"
proof -
  have a: "LStr k \<notin> LStr ` set (real_keys f p l)" using assms(2) by auto
  have b: "\<And>y. LStr k \<noteq> LStr (''RealIncome_'' @ str_int y)" using assms(1) by simp
  show ?thesis
    unfolding add_placeholders_def
    by (simp only: foldl_set_col_other_list [OF a] foldl_set_col_other [of "LStr k", OF b])
qed

lemma nrows_add_placeholders: "nrows (add_placeholders sy f p l pv) = nrows pv"
  unfolding add_placeholders_def by (simp only: nrows_foldl_set_col)

lemma length_to_dict: "length (to_dict pv) = nrows pv"
  by (simp add: to_dict_def)

lemma map_of_to_dict:
  assumes "i < nrows pv"
  shows "map_of (to_dict pv ! i) k = map_option (\<lambda>s. series_at s i) (map_of (columns pv) k)"
proof -
  have "to_dict pv ! i = map (\<lambda>(l, s). (l, series_at s i)) (columns pv)"
    using assms by (simp add: to_dict_def)
  then show ?thesis by (simp add: map_of_map)
qed

lemma pivot_Inr:
  assumes "pivot df = Inr pv"
  shows "distinct (map (\<lambda>r. (Municipio r, year r)) df)"
    and "nrows pv = length (sort (remdups (map Municipio df)))"
    and "columns pv = (LStr ''Municipio'', StrCol (sort (remdups (map Municipio df))))
          # map (\<lambda>y. (LInt y, NumCol (map (\<lambda>m. cell df m y) (sort (remdups (map Municipio df))))))
              (sort (remdups (map year df)))"
  using assms by (auto simp: pivot_def Let_def split: if_splits)

lemma pivot_Inl: "pivot df = Inl e \<longleftrightarrow> e = ValueError \<and> \<not> distinct (map (\<lambda>r. (Municipio r, year r)) df)"
  by (auto simp: pivot_def Let_def)

lemma nrows_rename_columns: "nrows (rename_columns sy pv) = nrows pv"
  by (simp add: rename_columns_def)

lemma renamed_municipio:
  assumes "pivot df = Inr pv"
  shows "map_of (columns (rename_columns sy pv)) (LStr ''Municipio'')
    = Some (StrCol (sort (remdups (map Municipio df))))"
  by (simp add: rename_columns_def rename_label_def pivot_Inr(3) [OF assms])

lemma renamed_lookup:
  assumes pv: "pivot df = Inr pv"
    and look: "map_of (columns (rename_columns sy pv)) k = Some s"
    and k: "k \<noteq> LStr ''Municipio''"
  shows "\<exists>xs. s = NumCol xs \<and> length xs = nrows pv \<and> df \<noteq> []"
proof -
  from look have "(k, s) \<in> set (columns (rename_columns sy pv))"
    by (rule map_of_SomeD)
  with k obtain y where
    "y \<in> set (sort (remdups (map year df)))"
    "s = NumCol (map (\<lambda>m. cell df m y) (sort (remdups (map Municipio df))))"
    by (auto simp: rename_columns_def rename_label_def pivot_Inr(3) [OF pv])
  then show ?thesis by (auto simp: pivot_Inr(2) [OF pv])
qed

lemma py_nth_first: "py_nth xs 0 = Inr x \<Longrightarrow> xs \<noteq> [] \<and> x = hd xs"
  by (auto simp: py_nth_def hd_conv_nth split: if_splits)

lemma py_nth_prev: "py_nth xs (- 2) = Inr x \<Longrightarrow> 2 \<le> length xs \<and> x = xs ! (length xs - 2)"
  by (auto simp: py_nth_def split: if_splits)

lemma py_nth_last:
  assumes "py_nth xs (- 1) = Inr x"
  shows "xs \<noteq> [] \<and> x = last xs"
proof -
  from assms have ne: "xs \<noteq> []" and x: "x = xs ! (length xs - 1)"
    by (auto simp: py_nth_def split: if_splits)
  from ne have "last xs = xs ! (length xs - 1)" by (rule last_conv_nth)
  with ne x show ?thesis by simp
qed

lemma widen_Inr:
  assumes "widen sy df = Inr pv"
  shows "\<exists>fs ps ls.
      2 \<le> length sy \<and> df \<noteq> [] \<and> distinct (map (\<lambda>r. (Municipio r, year r)) df)
    \<and> nrows pv = length (sort (remdups (map Municipio df)))
    \<and> length fs = nrows pv \<and> length ps = nrows pv \<and> length ls = nrows pv
    \<and> map_of (columns pv) (LStr ''Municipio'') = Some (StrCol (sort (remdups (map Municipio df))))
    \<and> map_of (columns pv) (LStr (str_int (hd sy))) = Some (NumCol fs)
    \<and> map_of (columns pv) (LStr (str_int (sy ! (length sy - 2)))) = Some (NumCol ps)
    \<and> map_of (columns pv) (LStr (str_int (last sy))) = Some (NumCol ls)
    \<and> map_of (columns pv) (LStr (change_key (str_int (sy ! (length sy - 2))) (str_int (last sy))))
        = Some (NumCol (map2 fl_sub ls ps))
    \<and> map_of (columns pv) (LStr (pct_change_key (str_int (sy ! (length sy - 2))) (str_int (last sy))))
        = Some (NumCol (map (\<lambda>x. fl_mul x (Fin 100)) (map2 fl_div (map2 fl_sub ls ps) ps)))
    \<and> map_of (columns pv) (LStr (cum_change_key (str_int (hd sy)) (str_int (last sy))))
        = Some (NumCol (map2 fl_sub ls fs))
    \<and> map_of (columns pv) (LStr (cum_pct_change_key (str_int (hd sy)) (str_int (last sy))))
        = Some (NumCol (map (\<lambda>x. fl_mul x (Fin 100)) (map2 fl_div (map2 fl_sub ls fs) fs)))"
proof -
  from assms obtain pv0 first prev lst pv1 where
    pv0: "pivot df = Inr pv0"
    and n0: "py_nth sy 0 = Inr first" and n2: "py_nth sy (- 2) = Inr prev"
    and n1: "py_nth sy (- 1) = Inr lst"
    and ch: "add_changes (str_int first) (str_int prev) (str_int lst) (rename_columns sy pv0) = Inr pv1"
    and pv: "pv = add_placeholders sy (str_int first) (str_int prev) (str_int lst) pv1"
    unfolding widen_def bind_err_Inr Let_def by auto
  define F where "F = hd sy"
  define P where "P = sy ! (length sy - 2)"
  define L where "L = last sy"
  have fpl: "first = F" "prev = P" "lst = L" and len: "2 \<le> length sy"
    using py_nth_first [OF n0] py_nth_prev [OF n2] py_nth_last [OF n1]
    by (simp_all add: F_def P_def L_def)
  define pvr where "pvr = rename_columns sy pv0"
  from add_changes_Inr [OF ch [unfolded fpl]] obtain fs ps ls where
    f: "map_of (columns pvr) (LStr (str_int F)) = Some (NumCol fs)"
    and p: "map_of (columns pvr) (LStr (str_int P)) = Some (NumCol ps)"
    and l: "map_of (columns pvr) (LStr (str_int L)) = Some (NumCol ls)"
    unfolding pvr_def by blast
  have ne: "LStr (str_int y) \<noteq> LStr ''Municipio''" for y
    by (simp add: str_int_not_key)
  from renamed_lookup [OF pv0 f [unfolded pvr_def] ne]
  have lf: "length fs = nrows pv0" and dfne: "df \<noteq> []" by auto
  from renamed_lookup [OF pv0 p [unfolded pvr_def] ne] have lp: "length ps = nrows pv0" by auto
  from renamed_lookup [OF pv0 l [unfolded pvr_def] ne] have ll: "length ls = nrows pv0" by auto
  from add_changes_eq [OF f p l] ch obtain
    n1: "nrows pv1 = nrows pvr"
    and m1: "map_of (columns pv1) = (map_of (columns pvr))
        (LStr (change_key (str_int P) (str_int L)) \<mapsto> NumCol (map2 fl_sub ls ps),
         LStr (pct_change_key (str_int P) (str_int L)) \<mapsto>
           NumCol (map (\<lambda>x. fl_mul x (Fin 100)) (map2 fl_div (map2 fl_sub ls ps) ps)),
         LStr (cum_change_key (str_int F) (str_int L)) \<mapsto> NumCol (map2 fl_sub ls fs),
         LStr (cum_pct_change_key (str_int F) (str_int L)) \<mapsto>
           NumCol (map (\<lambda>x. fl_mul x (Fin 100)) (map2 fl_div (map2 fl_sub ls fs) fs)))"
    unfolding fpl pvr_def by auto
  have nr: "nrows pv = nrows pv0"
    by (simp add: pv nrows_add_placeholders n1 pvr_def nrows_rename_columns)
  have keep: "map_of (columns pv) (LStr k) = map_of (columns pv1) (LStr k)"
    if "\<And>y. k \<noteq> ''RealIncome_'' @ str_int y" "k \<notin> set (real_keys (str_int F) (str_int P) (str_int L))" for k
    unfolding pv fpl using that by (rule add_placeholders_other)
  have mun: "map_of (columns pv) (LStr ''Municipio'') = Some (StrCol (sort (remdups (map Municipio df))))"
  proof -
    have "map_of (columns pv) (LStr ''Municipio'') = map_of (columns pv1) (LStr ''Municipio'')"
      by (rule keep) (rule keys_not_placeholder)+
    also have "\<dots> = map_of (columns pvr) (LStr ''Municipio'')"
      by (simp add: m1 keys_not_placeholder)
    finally show ?thesis using renamed_municipio [OF pv0, of sy] by (simp add: pvr_def)
  qed
  have yf: "map_of (columns pv) (LStr (str_int y)) = map_of (columns pvr) (LStr (str_int y))" for y
  proof -
    have "map_of (columns pv) (LStr (str_int y)) = map_of (columns pv1) (LStr (str_int y))"
      by (rule keep) (rule str_int_not_key str_int_not_real_key)+
    also have "\<dots> = map_of (columns pvr) (LStr (str_int y))"
      by (simp add: m1 str_int_not_key)
    finally show ?thesis .
  qed
  have c1: "map_of (columns pv) (LStr (change_key (str_int P) (str_int L)))
        = Some (NumCol (map2 fl_sub ls ps))"
  proof -
    have "map_of (columns pv) (LStr (change_key (str_int P) (str_int L)))
        = map_of (columns pv1) (LStr (change_key (str_int P) (str_int L)))"
      by (rule keep) (rule keys_not_placeholder)+
    then show ?thesis by (simp add: m1 keys_differ)
  qed
  have c2: "map_of (columns pv) (LStr (pct_change_key (str_int P) (str_int L)))
        = Some (NumCol (map (\<lambda>x. fl_mul x (Fin 100)) (map2 fl_div (map2 fl_sub ls ps) ps)))"
  proof -
    have "map_of (columns pv) (LStr (pct_change_key (str_int P) (str_int L)))
        = map_of (columns pv1) (LStr (pct_change_key (str_int P) (str_int L)))"
      by (rule keep) (rule keys_not_placeholder)+
    then show ?thesis by (simp add: m1 keys_differ)
  qed
  have c3: "map_of (columns pv) (LStr (cum_change_key (str_int F) (str_int L)))
        = Some (NumCol (map2 fl_sub ls fs))"
  proof -
    have "map_of (columns pv) (LStr (cum_change_key (str_int F) (str_int L)))
        = map_of (columns pv1) (LStr (cum_change_key (str_int F) (str_int L)))"
      by (rule keep) (rule keys_not_placeholder)+
    then show ?thesis by (simp add: m1 keys_differ)
  qed
  have c4: "map_of (columns pv) (LStr (cum_pct_change_key (str_int F) (str_int L)))
        = Some (NumCol (map (\<lambda>x. fl_mul x (Fin 100)) (map2 fl_div (map2 fl_sub ls fs) fs)))"
  proof -
    have "map_of (columns pv) (LStr (cum_pct_change_key (str_int F) (str_int L)))
        = map_of (columns pv1) (LStr (cum_pct_change_key (str_int F) (str_int L)))"
      by (rule keep) (rule keys_not_placeholder)+
    then show ?thesis by (simp add: m1 keys_differ)
  qed
  show ?thesis
    using len dfne pivot_Inr(1) [OF pv0] nr pivot_Inr(2) [OF pv0] lf lp ll mun
      f p l c1 c2 c3 c4
    unfolding yf F_def [symmetric] P_def [symmetric] L_def [symmetric]
    by (intro exI [of _ fs] exI [of _ ps] exI [of _ ls]) simp
qed

section \<open>The aggregator\<close>


lemma build_df_nonempty:
  assumes "records \<noteq> []"
  shows "build_df records
    = Inr (filter (\<lambda>r. Establishments r \<noteq> None) (sort_key (\<lambda>r. (Municipio r, year r)) records))"
  using assms by (simp add: build_df_def)

lemma mset_dropna:
  "mset (filter (\<lambda>r. Establishments r \<noteq> None) (sort_key (\<lambda>r. (Municipio r, year r)) records))
    = mset (filter (\<lambda>r. Establishments r \<noteq> None) records)"
  by (simp add: mset_filter)







section \<open>The run that writes its file\<close>

lemma save_Inr:
  assumes "save now sy pv = Inr (path, out)"
  shows "path = json_name (str_int (last sy))"
    and "out = map Row (to_dict pv) @ [Metadata (make_metadata now sy)]"
proof -
  from assms obtain lst where "py_nth sy (- 1) = Inr lst"
    and e: "(path, out) = (json_name (str_int lst), map Row (to_dict pv) @ [Metadata (make_metadata now sy)])"
    unfolding save_def bind_err_Inr by auto
  with py_nth_last [of sy lst] show "path = json_name (str_int (last sy))"
    and "out = map Row (to_dict pv) @ [Metadata (make_metadata now sy)]" by simp_all
qed

lemma run_Saved:
  assumes "run env = Saved path out"
  shows "\<exists>long pv.
      2 \<le> length [START_YEAR..current_year env - 2]
    \<and> add_island (fst (fetch_loop env [START_YEAR..current_year env - 2])) = Inr long
    \<and> widen (filter (returned_data env) [START_YEAR..current_year env - 2]) long = Inr pv
    \<and> path = json_name (str_int (last (filter (returned_data env) [START_YEAR..current_year env - 2])))
    \<and> out = map Row (to_dict pv) @ [Metadata (make_metadata (today env)
          (filter (returned_data env) [START_YEAR..current_year env - 2]))]"
proof -
  let ?ys = "[START_YEAR..current_year env - 2]"
  let ?sy = "filter (returned_data env) ?ys"
  from assms have len: "2 \<le> length ?ys"
    by (simp add: run_cases split: if_splits)
  from assms len have
    "(case bind_err (add_island (fst (fetch_loop env ?ys))) (\<lambda>df.
         bind_err (widen ?sy df) (\<lambda>pv. save (today env) ?sy pv)) of
       Inl e \<Rightarrow> Raised e | Inr (path, out) \<Rightarrow> Saved path out) = Saved path out"
    by (simp add: run_cases fetch_loop_successful split: if_splits)
  then have "bind_err (add_island (fst (fetch_loop env ?ys))) (\<lambda>df.
         bind_err (widen ?sy df) (\<lambda>pv. save (today env) ?sy pv)) = Inr (path, out)"
    by (auto split: sum.splits)
  then obtain long pv where
    a: "add_island (fst (fetch_loop env ?ys)) = Inr long"
    and w: "widen ?sy long = Inr pv"
    and s: "save (today env) ?sy pv = Inr (path, out)"
    unfolding bind_err_Inr by blast
  from len a w save_Inr [OF s] show ?thesis by blast
qed






section \<open>Missing values and zero denominators\<close>








section \<open>The shape and the order of the output\<close>

lemma add_island_Inr:
  assumes "add_island records = Inr long"
  shows "records \<noteq> []"
    and "long = filter (\<lambda>r. Establishments r \<noteq> None) (sort_key (\<lambda>r. (Municipio r, year r)) records)
          @ island (filter (\<lambda>r. Establishments r \<noteq> None) (sort_key (\<lambda>r. (Municipio r, year r)) records))"
  using assms by (auto simp: add_island_def build_df_def bind_err_def split: if_splits)

lemma island_empty: "island df = [] \<longleftrightarrow> df = []"
proof -
  have "set (sort (remdups (map year df))) = year ` set df" by simp
  then have "sort (remdups (map year df)) = [] \<longleftrightarrow> df = []"
    by (metis image_is_empty set_empty)
  then show ?thesis by (simp add: island_def)
qed

lemma island_names: "r \<in> set (island df) \<Longrightarrow> Municipio r = ''Puerto Rico''"
  by (auto simp: island_def)

lemma names_of_long:
  assumes "df \<noteq> []"
  shows "set (map Municipio (df @ island df)) = insert ''Puerto Rico'' (Municipio ` set df)"
proof -
  from assms obtain r where "r \<in> set (island df)"
    using island_empty [of df] by (cases "island df") auto
  with island_names show ?thesis by force
qed

lemma sort_remdups_cong:
  "set xs = set ys \<Longrightarrow> sort (remdups xs) = sort (remdups (ys :: 'a :: linorder list))"
  by (metis sorted_list_of_set_sort_remdups)

lemma long_names:
  assumes a: "add_island (fst (fetch_loop env ys)) = Inr long" and ne: "long \<noteq> []"
  shows "sort (remdups (map Municipio long))
      = sort (remdups (''Puerto Rico'' # map Municipio
          (filter (\<lambda>r. Establishments r \<noteq> None) (fst (fetch_loop env ys)))))"
    and "length (sort (remdups (map Municipio long)))
      = length (remdups (map Municipio
          (filter (\<lambda>r. Establishments r \<noteq> None) (fst (fetch_loop env ys))))) + 1"
proof -
  let ?recs = "fst (fetch_loop env ys)"
  define df where "df = filter (\<lambda>r. Establishments r \<noteq> None)
    (sort_key (\<lambda>r. (Municipio r, year r)) ?recs)"
  have long: "long = df @ island df"
    using add_island_Inr(2) [OF a] by (simp add: df_def)
  with ne have dfne: "df \<noteq> []" by (auto simp: island_empty)
  have sdf: "set df = set (filter (\<lambda>r. Establishments r \<noteq> None) ?recs)"
    by (simp add: df_def)
  have s: "set (map Municipio long)
      = set (''Puerto Rico'' # map Municipio (filter (\<lambda>r. Establishments r \<noteq> None) ?recs))"
    unfolding long names_of_long [OF dfne] sdf by simp
  show "sort (remdups (map Municipio long))
      = sort (remdups (''Puerto Rico'' # map Municipio (filter (\<lambda>r. Establishments r \<noteq> None) ?recs)))"
    using s by (rule sort_remdups_cong)
  have notpr: "''Puerto Rico'' \<notin> set (map Municipio (filter (\<lambda>r. Establishments r \<noteq> None) ?recs))"
  proof
    assume "''Puerto Rico'' \<in> set (map Municipio (filter (\<lambda>r. Establishments r \<noteq> None) ?recs))"
    then obtain r where "r \<in> set ?recs" "Municipio r = ''Puerto Rico''" by auto
    with fetch_loop_records [of r env ys] show False by simp
  qed
  have "length (sort (remdups (map Municipio long))) = card (set (map Municipio long))"
    by (simp add: length_remdups_card_conv)
  also have "\<dots> = card (insert ''Puerto Rico''
      (set (map Municipio (filter (\<lambda>r. Establishments r \<noteq> None) ?recs))))"
    unfolding s by simp
  also have "\<dots> = card (set (map Municipio (filter (\<lambda>r. Establishments r \<noteq> None) ?recs))) + 1"
    using notpr by simp
  finally show "length (sort (remdups (map Municipio long)))
      = length (remdups (map Municipio (filter (\<lambda>r. Establishments r \<noteq> None) ?recs))) + 1"
    by (simp add: length_remdups_card_conv)
qed

lemma name_column:
  assumes col: "map_of (columns pv) (LStr ''Municipio'') = Some (StrCol names)"
    and len: "nrows pv = length names"
  shows "map (\<lambda>it. field it ''Municipio'') (map Row (to_dict pv)) = map (\<lambda>n. Some (VStr n)) names"
proof (rule nth_equalityI)
  show "length (map (\<lambda>it. field it ''Municipio'') (map Row (to_dict pv)))
      = length (map (\<lambda>n. Some (VStr n)) names)"
    by (simp add: length_to_dict len)
next
  fix i
  assume "i < length (map (\<lambda>it. field it ''Municipio'') (map Row (to_dict pv)))"
  then have i: "i < nrows pv" by (simp add: length_to_dict)
  then show "map (\<lambda>it. field it ''Municipio'') (map Row (to_dict pv)) ! i
      = map (\<lambda>n. Some (VStr n)) names ! i"
    using len by (simp add: length_to_dict map_of_to_dict col)
qed

lemma sorted_ends:
  assumes "sorted (xs :: 'a :: linorder list)" and "a \<in> set xs"
  shows "hd xs \<le> a" and "a \<le> last xs"
proof -
  from assms(2) obtain i where i: "i < length xs" "xs ! i = a"
    by (auto simp: in_set_conv_nth)
  then have ne: "xs \<noteq> []" by auto
  have "xs ! 0 \<le> xs ! i" using assms(1) i(1) by (simp add: sorted_iff_nth_mono)
  then show "hd xs \<le> a" using ne i(2) by (simp add: hd_conv_nth)
  have "xs ! i \<le> xs ! (length xs - 1)"
    using assms(1) i(1) by (intro sorted_nth_mono) auto
  then show "a \<le> last xs" using ne i(2) by (simp add: last_conv_nth)
qed


text \<open>
  C10, as amended. In every file written, the rows before the final metadata item are in
  strictly ascending order of their names, which are the names of the municipalities
  with a count together with \<open>"Puerto Rico"\<close>: the row of the island stands at its
  alphabetical position. It is neither first nor last whenever one name sorts before
  \<open>"Puerto Rico"\<close> and another after it.
\<close>

theorem rows_sorted_by_name:
  assumes saved: "run env = Saved path out"
    and names: "names = sort (remdups (''Puerto Rico'' # map Municipio
        (filter (\<lambda>r. Establishments r \<noteq> None)
          (fst (fetch_loop env [START_YEAR..current_year env - 2])))))"
  shows "map (\<lambda>it. field it ''Municipio'') (butlast out) = map (\<lambda>n. Some (VStr n)) names
    \<and> sorted_wrt (<) names
    \<and> ''Puerto Rico'' \<in> set names
    \<and> (\<forall>a b. a \<in> set names \<and> b \<in> set names \<and> a < ''Puerto Rico'' \<and> ''Puerto Rico'' < b
          \<longrightarrow> hd names \<noteq> ''Puerto Rico'' \<and> last names \<noteq> ''Puerto Rico'')"
proof -
  from run_Saved [OF saved] obtain long pv where
    a: "add_island (fst (fetch_loop env [START_YEAR..current_year env - 2])) = Inr long"
    and w: "widen (filter (returned_data env) [START_YEAR..current_year env - 2]) long = Inr pv"
    and out: "out = map Row (to_dict pv) @ [Metadata (make_metadata (today env)
          (filter (returned_data env) [START_YEAR..current_year env - 2]))]"
    by blast
  from widen_Inr [OF w] have ne: "long \<noteq> []"
    and n: "nrows pv = length (sort (remdups (map Municipio long)))"
    and col: "map_of (columns pv) (LStr ''Municipio'') = Some (StrCol (sort (remdups (map Municipio long))))"
    by blast+
  have nm: "sort (remdups (map Municipio long)) = names"
    unfolding names by (rule long_names(1) [OF a ne])
  have one: "map (\<lambda>it. field it ''Municipio'') (butlast out) = map (\<lambda>n. Some (VStr n)) names"
    unfolding out using name_column [OF col n] by (simp add: nm)
  have srt: "sorted names" and dst: "distinct names"
    unfolding names by simp_all
  then have two: "sorted_wrt (<) names"
    by (simp add: strict_sorted_iff)
  have three: "''Puerto Rico'' \<in> set names"
    unfolding names by simp
  have four: "hd names \<noteq> ''Puerto Rico'' \<and> last names \<noteq> ''Puerto Rico''"
    if "a \<in> set names" "b \<in> set names" "a < ''Puerto Rico''" "''Puerto Rico'' < b" for a b
    using sorted_ends [OF srt that(1)] sorted_ends [OF srt that(2)] that(3,4) by auto
  from one two three four show ?thesis by blast
qed


theorem rows_sorted_by_name_witness:
  "map (\<lambda>it. field it ''Municipio'') (butlast (items (run sample_env)))
     = [Some (VStr ''Adjuntas''), Some (VStr ''Puerto Rico''), Some (VStr ''Yauco'')]
   \<and> ''Adjuntas'' < ''Puerto Rico'' \<and> ''Puerto Rico'' < ''Yauco''
   \<and> hd [''Adjuntas'', ''Puerto Rico'', ''Yauco''] \<noteq> ''Puerto Rico''
   \<and> last [''Adjuntas'', ''Puerto Rico'', ''Yauco''] \<noteq> ''Puerto Rico''"
proof -
  have names: "[''Adjuntas'', ''Puerto Rico'', ''Yauco'']
      = sort (remdups (''Puerto Rico'' # map Municipio
          (filter (\<lambda>r. Establishments r \<noteq> None)
            (fst (fetch_loop sample_env [START_YEAR..current_year sample_env - 2])))))"
    by (simp add: sample_env_years sample_env_fetch)
  note t = rows_sorted_by_name [OF sample_env_run names]
  have lt: "''Adjuntas'' < ''Puerto Rico''" "''Puerto Rico'' < ''Yauco''"
    by simp_all
  from t have "map (\<lambda>it. field it ''Municipio'') (butlast (items (run sample_env)))
     = [Some (VStr ''Adjuntas''), Some (VStr ''Puerto Rico''), Some (VStr ''Yauco'')]"
    by (simp add: sample_env_run)
  moreover from t lt have "hd [''Adjuntas'', ''Puerto Rico'', ''Yauco''] \<noteq> ''Puerto Rico''
     \<and> last [''Adjuntas'', ''Puerto Rico'', ''Yauco''] \<noteq> ''Puerto Rico''"
    by simp
  ultimately show ?thesis using lt by blast
qed


text \<open>
  C10, as stated, fails where no name sorts after \<open>"Puerto Rico"\<close>: with Adjuntas as
  the only municipality, the row of the island is the last of the two data rows.
\<close>

theorem island_row_last_counterexample:
  "field (items (run lone_env) ! 0) ''Municipio'' = Some (VStr ''Adjuntas'')
   \<and> field (items (run lone_env) ! 1) ''Municipio'' = Some (VStr ''Puerto Rico'')
   \<and> field (last (butlast (items (run lone_env)))) ''Municipio'' = Some (VStr ''Puerto Rico'')
   \<and> length (butlast (items (run lone_env))) = 2"
  by (simp add: lone_env_run)




section \<open>Duplicate records\<close>


lemma get_col_Inl: "get_col pv k = Inl e \<Longrightarrow> e = KeyError"
  by (simp add: get_col_def split: option.splits)

lemma series_binop_Inl: "series_binop f a b = Inl e \<Longrightarrow> e = TypeError"
  by (cases "(f, a, b)" rule: series_binop.cases) auto

lemma series_times_100_Inl: "series_times_100 a = Inl e \<Longrightarrow> e = TypeError"
  by (cases a) auto

lemma add_change_Inl:
  assumes "add_change ck pk from to pv = Inl e"
  shows "e \<noteq> ValueError"
  using assms unfolding add_change_def Let_def bind_err_Inl
  by (auto dest: get_col_Inl series_binop_Inl series_times_100_Inl)

lemma add_changes_Inl:
  assumes "add_changes f p l pv = Inl e"
  shows "e \<noteq> ValueError"
  using assms unfolding add_changes_def bind_err_Inl
  by (auto dest: add_change_Inl)

lemma py_nth_Inl: "py_nth xs i = Inl e \<Longrightarrow> e = IndexError"
  by (auto simp: py_nth_def split: if_splits)

lemma widen_ValueError: "widen sy df = Inl ValueError \<longleftrightarrow> pivot df = Inl ValueError"
proof
  assume "widen sy df = Inl ValueError"
  then show "pivot df = Inl ValueError"
    unfolding widen_def Let_def bind_err_Inl
    by (auto dest: py_nth_Inl add_changes_Inl)
next
  assume "pivot df = Inl ValueError"
  then show "widen sy df = Inl ValueError"
    by (simp add: widen_def bind_err_def)
qed

lemma save_Inl: "save now sy pv = Inl e \<Longrightarrow> e = IndexError"
  unfolding save_def bind_err_Inl by (auto dest: py_nth_Inl)

lemma add_island_Inl: "add_island records = Inl e \<Longrightarrow> e = KeyError"
  by (auto simp: add_island_def build_df_def bind_err_def split: if_splits)

lemma distinct_map_mset:
  assumes "mset xs = mset ys"
  shows "distinct (map f xs) \<longleftrightarrow> distinct (map f ys)"
proof -
  from assms have "mset (map f xs) = mset (map f ys)" by (metis mset_map)
  then show ?thesis by (rule mset_eq_imp_distinct_iff)
qed

lemma island_keys_distinct: "distinct (map (\<lambda>r. (Municipio r, year r)) (island df))"
proof -
  have "map (\<lambda>r. (Municipio r, year r)) (island df)
      = map (\<lambda>y. (''Puerto Rico'', y)) (sort (remdups (map year df)))"
    by (simp add: island_def comp_def)
  moreover have "distinct (map (\<lambda>y. (''Puerto Rico'', y)) (sort (remdups (map year df))))"
    by (simp add: distinct_map inj_on_def)
  ultimately show ?thesis by simp
qed

lemma long_keys_distinct:
  assumes "\<forall>r\<in>set df. Municipio r \<noteq> ''Puerto Rico''"
  shows "distinct (map (\<lambda>r. (Municipio r, year r)) (df @ island df))
    \<longleftrightarrow> distinct (map (\<lambda>r. (Municipio r, year r)) df)"
proof -
  have "set (map (\<lambda>r. (Municipio r, year r)) df) \<inter> set (map (\<lambda>r. (Municipio r, year r)) (island df)) = {}"
    using assms island_names by fastforce
  then show ?thesis using island_keys_distinct [of df] by simp
qed

lemma fetched_pivot:
  assumes ne: "fst (fetch_loop env ys) \<noteq> []"
  shows "\<exists>long. add_island (fst (fetch_loop env ys)) = Inr long
    \<and> (distinct (map (\<lambda>r. (Municipio r, year r)) long)
        \<longleftrightarrow> distinct (map (\<lambda>r. (Municipio r, year r))
              (filter (\<lambda>r. Establishments r \<noteq> None) (fst (fetch_loop env ys)))))"
proof -
  let ?recs = "fst (fetch_loop env ys)"
  define df where "df = filter (\<lambda>r. Establishments r \<noteq> None)
    (sort_key (\<lambda>r. (Municipio r, year r)) ?recs)"
  have a: "add_island ?recs = Inr (df @ island df)"
    using ne by (simp add: add_island_def build_df_def bind_err_def df_def)
  have m: "mset df = mset (filter (\<lambda>r. Establishments r \<noteq> None) ?recs)"
    unfolding df_def by (rule mset_dropna)
  have "\<forall>r\<in>set df. Municipio r \<noteq> ''Puerto Rico''"
    using fetch_loop_records [of _ env ys] by (auto simp: df_def)
  from long_keys_distinct [OF this] distinct_map_mset [OF m] a show ?thesis by blast
qed

lemma clash_env_years: "[START_YEAR..current_year clash_env - 2] = [2010, 2011]"
  by code_simp

lemma clash_env_fetch:
  "fetch_loop clash_env [2010, 2011] =
    ([\<lparr>year = 2010, Municipio = ''Adjuntas'', Establishments = Some 5\<rparr>,
      \<lparr>year = 2010, Municipio = ''Adjuntas'', Establishments = Some 6\<rparr>,
      \<lparr>year = 2011, Municipio = ''Adjuntas'', Establishments = Some 7\<rparr>],
     [2010, 2011])"
  by code_simp

text \<open>
  C9, as amended. When the loop over the years has run and at least two years returned
  data, the pivot succeeds exactly when there are records and no two records with a count
  have the same municipality and year; the run raises ValueError exactly when two such
  records exist, and then it writes no file.
\<close>

theorem pivot_raises_on_duplicates:
  assumes years: "years = [START_YEAR..current_year env - 2]"
    and records: "records = fst (fetch_loop env years)"
    and len: "2 \<le> length years"
    and succ: "2 \<le> length (filter (returned_data env) years)"
  shows "(run env = Raised ValueError \<longleftrightarrow>
        \<not> distinct (map (\<lambda>r. (Municipio r, year r)) (filter (\<lambda>r. Establishments r \<noteq> None) records)))
    \<and> ((\<exists>pv. bind_err (add_island records) pivot = Inr pv) \<longleftrightarrow>
        records \<noteq> [] \<and> distinct (map (\<lambda>r. (Municipio r, year r))
          (filter (\<lambda>r. Establishments r \<noteq> None) records)))
    \<and> (\<not> distinct (map (\<lambda>r. (Municipio r, year r)) (filter (\<lambda>r. Establishments r \<noteq> None) records))
        \<longrightarrow> \<not> saved (run env))"
proof -
  let ?sy = "filter (returned_data env) years"
  let ?d = "distinct (map (\<lambda>r. (Municipio r, year r)) (filter (\<lambda>r. Establishments r \<noteq> None) records))"
  let ?chain = "bind_err (add_island records) (\<lambda>df.
      bind_err (widen ?sy df) (\<lambda>pv. save (today env) ?sy pv))"
  have run: "run env = (case ?chain of Inl e \<Rightarrow> Raised e | Inr (path, out) \<Rightarrow> Saved path out)"
    using len succ unfolding years records
    by (simp add: run_cases fetch_loop_successful)
  have rv: "run env = Raised ValueError \<longleftrightarrow> ?chain = Inl ValueError"
    unfolding run by (auto split: sum.splits)
  show ?thesis
  proof (cases "records = []")
    case True
    then have "?chain = Inl KeyError"
      by (simp add: add_island_def build_df_def bind_err_def)
    moreover have "bind_err (add_island records) pivot = Inl KeyError"
      using True by (simp add: add_island_def build_df_def bind_err_def)
    ultimately show ?thesis using True rv by simp
  next
    case False
    from fetched_pivot [OF False [unfolded records]] obtain long where
      a: "add_island records = Inr long"
      and d: "distinct (map (\<lambda>r. (Municipio r, year r)) long) \<longleftrightarrow> ?d"
      unfolding records by blast
    have p: "(\<exists>pv. pivot long = Inr pv) \<longleftrightarrow> ?d"
      using d by (auto simp: pivot_def Let_def)
    have "?chain = Inl ValueError \<longleftrightarrow> pivot long = Inl ValueError"
    proof
      assume "?chain = Inl ValueError"
      then have "widen ?sy long = Inl ValueError"
        unfolding bind_err_Inl a by (auto dest: save_Inl)
      then show "pivot long = Inl ValueError" by (simp add: widen_ValueError)
    next
      assume "pivot long = Inl ValueError"
      then have "widen ?sy long = Inl ValueError" by (simp add: widen_ValueError)
      then show "?chain = Inl ValueError" by (simp add: a bind_err_def)
    qed
    also have "\<dots> \<longleftrightarrow> \<not> ?d"
      using d by (auto simp: pivot_Inl)
    finally have one: "run env = Raised ValueError \<longleftrightarrow> \<not> ?d" using rv by simp
    have two: "(\<exists>pv. bind_err (add_island records) pivot = Inr pv) \<longleftrightarrow> records \<noteq> [] \<and> ?d"
      using p False by (simp add: a bind_err_def)
    have three: "\<not> ?d \<longrightarrow> \<not> saved (run env)"
      using one by auto
    from one two three show ?thesis by blast
  qed
qed

theorem pivot_raises_on_duplicates_witness:
  "2 \<le> length [START_YEAR..current_year clash_env - 2]
   \<and> 2 \<le> length (filter (returned_data clash_env) [START_YEAR..current_year clash_env - 2])
   \<and> fst (fetch_loop clash_env [START_YEAR..current_year clash_env - 2]) =
      [\<lparr>year = 2010, Municipio = ''Adjuntas'', Establishments = Some 5\<rparr>,
       \<lparr>year = 2010, Municipio = ''Adjuntas'', Establishments = Some 6\<rparr>,
       \<lparr>year = 2011, Municipio = ''Adjuntas'', Establishments = Some 7\<rparr>]
   \<and> run clash_env = Raised ValueError
   \<and> \<not> saved (run clash_env)"
proof -
  let ?recs = "[\<lparr>year = 2010, Municipio = ''Adjuntas'', Establishments = Some 5\<rparr>,
       \<lparr>year = 2010, Municipio = ''Adjuntas'', Establishments = Some 6\<rparr>,
       \<lparr>year = 2011, Municipio = ''Adjuntas'', Establishments = Some 7\<rparr>]"
  have years: "[2010, 2011] = [START_YEAR..current_year clash_env - 2]"
    by (simp add: clash_env_years)
  have records: "?recs = fst (fetch_loop clash_env [2010, 2011])"
    by (simp add: clash_env_fetch)
  have len: "2 \<le> length [2010, 2011 :: int]" by simp
  have "filter (returned_data clash_env) [2010, 2011] = [2010, 2011]"
    using fetch_loop_successful [of clash_env "[2010, 2011]"] by (simp add: clash_env_fetch)
  then have succ: "2 \<le> length (filter (returned_data clash_env) [2010, 2011])"
    by (simp only: ) simp
  note t = pivot_raises_on_duplicates [OF years records len succ]
  have dup: "\<not> distinct (map (\<lambda>r. (Municipio r, year r))
      (filter (\<lambda>r. Establishments r \<noteq> None) ?recs))"
    by simp
  from t dup have r: "run clash_env = Raised ValueError" "\<not> saved (run clash_env)"
    by blast+
  from len succ records r show ?thesis
    unfolding years [symmetric] by simp
qed


text \<open>
  C9, as stated, fails when one of two rows for the same municipality has a count that is
  no number: the answer for 2010 has two rows for Adjuntas, the record of the first is
  dropped with its missing count before the pivot, and the run writes its file.
\<close>

theorem duplicate_rows_counterexample:
  "http_get dup_env 2010 (get_naics_variable_name 2010)
     = api_table [(''Adjuntas Municipio, Puerto Rico'', ''abc''),
                  (''Adjuntas Municipio, Puerto Rico'', ''5'')]
   \<and> fst (fetch_loop dup_env [2010, 2011]) =
      [\<lparr>year = 2010, Municipio = ''Adjuntas'', Establishments = None\<rparr>,
       \<lparr>year = 2010, Municipio = ''Adjuntas'', Establishments = Some 5\<rparr>,
       \<lparr>year = 2011, Municipio = ''Adjuntas'', Establishments = Some 7\<rparr>]
   \<and> saved (run dup_env)
   \<and> field (items (run dup_env) ! 0) ''2010'' = Some (VNum (Fin 5))"
  by (simp add: dup_env_fetch dup_env_run) (simp add: dup_env_def service_def)

end
